theory Spec2Isabelle
  imports Main
begin

section \<open>Plain-text fabric bitstream writer (write\_text\_fabric\_bitstream.cpp)\<close>

subsection \<open>Data model\<close>

text \<open>
  The enumeration of configuration protocols. The writer names four enumerators; every
  other value an \<open>e_config_protocol_type\<close> variable can hold reaches the \<open>default\<close> arm
  of the two \<open>switch\<close> statements and is represented by \<open>CONFIG_MEM_UNRECOGNIZED\<close>.
\<close>

datatype e_config_protocol_type =
    CONFIG_MEM_STANDALONE
  | CONFIG_MEM_SCAN_CHAIN
  | CONFIG_MEM_MEMORY_BANK
  | CONFIG_MEM_FRAME_BASED
  | CONFIG_MEM_UNRECOGNIZED nat

record ConfigProtocol =
  type :: e_config_protocol_type

type_synonym ConfigBitId = nat
type_synonym FabricBitId = nat
type_synonym FabricBitRegionId = nat

text \<open>\<open>BitstreamManager::bit_value\<close>: the value of a configuration bit.\<close>

record BitstreamManager =
  bit_value :: "ConfigBitId \<Rightarrow> bool"

text \<open>
  The accessors of \<open>FabricBitstream\<close> the writer and its helpers read: the bits in
  source order, the configuration bit behind each fabric bit, the address annotations
  (character sequences), the data input of a bit, and the ordered regions with the
  ordered bits of each.
\<close>

record FabricBitstream =
  bits :: "FabricBitId list"
  config_bit :: "FabricBitId \<Rightarrow> ConfigBitId"
  bit_address :: "FabricBitId \<Rightarrow> string"
  bit_bl_address :: "FabricBitId \<Rightarrow> string"
  bit_wl_address :: "FabricBitId \<Rightarrow> string"
  bit_din :: "FabricBitId \<Rightarrow> bool"
  regions :: "FabricBitRegionId list"
  region_bits :: "FabricBitRegionId \<Rightarrow> FabricBitId list"

definition num_bits :: "FabricBitstream \<Rightarrow> nat" where
  "num_bits fabric_bitstream = length (bits fabric_bitstream)"

subsection \<open>The destination stream and the log\<close>

text \<open>
  Messages of the logger, by kind, with the data each one prints.
\<close>

datatype log_event =
    Error_Empty_File_Name
  | Timer_Start nat string
  | Timer_Finish
  | Error_Invalid_File string
  | Error_Invalid_Protocol
  | Outputted_Bits nat string

text \<open>
  The state the writer acts on: the \<open>std::fstream\<close> and the log. \<open>fp_good\<close> says that
  the stream is open with no error flag set. \<open>fp_room\<close> is the number of characters the
  destination still accepts before a write to it fails (\<open>None\<close>: it never fails).
  \<open>fp_content\<close> is the text written to the stream and not refused: what has reached the
  destination, followed by what the stream still holds in its buffer; \<open>fp_pending\<close> is
  the length of that buffered tail. On a destination that never refuses a write the
  buffer cannot be observed and is not recorded.
\<close>

record io =
  fp_good :: bool
  fp_room :: "nat option"
  fp_pending :: nat
  fp_content :: string
  vtr_log :: "log_event list"

text \<open>
  The stream is buffered: a character goes to the put area of the file buffer, and the
  characters held are handed to the destination only when the put area is full, or
  when the stream is flushed. \<open>filebuf_put_area\<close> is the size of the put area, a
  constant of the C++ library (\<open>BUFSIZ - 1\<close> characters in libstdc++); the proofs
  about any number of characters do not depend on its value.
\<close>

definition filebuf_put_area :: nat where
  "filebuf_put_area = 8191"

text \<open>
  Handing the last \<open>k\<close> characters of the content to a destination that accepts \<open>n\<close>
  more: when it refuses some of them, these are lost, the destination accepts no more
  and the error flag is set.
\<close>

definition device_write :: "nat \<Rightarrow> nat \<Rightarrow> io \<Rightarrow> io" where
  "device_write k n fp =
     (if k \<le> n then fp\<lparr>fp_room := Some (n - k), fp_pending := 0\<rparr>
      else fp\<lparr>fp_good := False, fp_room := Some 0, fp_pending := 0,
              fp_content := take (length (fp_content fp) - k + n) (fp_content fp)\<rparr>)"

text \<open>
  \<open>fp << c\<close> for a character. A formatted output on a stream that is not good writes
  nothing. When the put area is full, the characters held and the new one are handed
  to the destination.
\<close>

definition put_char :: "char \<Rightarrow> io \<Rightarrow> io" where
  "put_char c fp =
     (if \<not> fp_good fp then fp
      else case fp_room fp of
             None \<Rightarrow> fp\<lparr>fp_content := fp_content fp @ [c]\<rparr>
           | Some n \<Rightarrow>
               (if fp_pending fp < filebuf_put_area
                then fp\<lparr>fp_pending := Suc (fp_pending fp), fp_content := fp_content fp @ [c]\<rparr>
                else device_write (Suc (fp_pending fp)) n
                       (fp\<lparr>fp_content := fp_content fp @ [c]\<rparr>)))"

text \<open>\<open>fp << s\<close> for a character sequence.\<close>

definition put_string :: "string \<Rightarrow> io \<Rightarrow> io" where
  "put_string s fp = fold put_char s fp"

text \<open>\<open>fp << b\<close> for a \<open>bool\<close>: the digit \<open>1\<close> or \<open>0\<close>.\<close>

definition bit_digit :: "bool \<Rightarrow> char" where
  "bit_digit b = (if b then CHR ''1'' else CHR ''0'')"

definition put_bool :: "bool \<Rightarrow> io \<Rightarrow> io" where
  "put_bool b fp = put_char (bit_digit b) fp"

text \<open>Flushing the stream hands the characters held to the destination.\<close>

definition flush :: "io \<Rightarrow> io" where
  "flush fp =
     (if \<not> fp_good fp then fp
      else case fp_room fp of
             None \<Rightarrow> fp
           | Some n \<Rightarrow> device_write (fp_pending fp) n fp)"

text \<open>\<open>fp << std::endl\<close>: the line terminator, then a flush.\<close>

definition put_endl :: "io \<Rightarrow> io" where
  "put_endl fp = flush (put_char (CHR 0x0A) fp)"

definition vtr_log_event :: "log_event \<Rightarrow> io \<Rightarrow> io" where
  "vtr_log_event e fp = fp\<lparr>vtr_log := vtr_log fp @ [e]\<rparr>"

text \<open>
  Modelled from the spec: \<open>valid_file_stream\<close> (one of the "stream validity checks" of
  the design notes) is called but not defined in the source file. It tells whether the stream
  can be written.
\<close>

definition valid_file_stream :: "io \<Rightarrow> bool" where
  "valid_file_stream fp = fp_good fp"

text \<open>
  Modelled from the spec: \<open>write_space_to_file\<close> (one of the "space/line writers" of
  the design notes) is called but not defined in the source file. It writes the given number
  of spaces; the writer asks for "a single space".
\<close>

definition write_space_to_file :: "io \<Rightarrow> nat \<Rightarrow> io" where
  "write_space_to_file fp num_space = put_string (replicate num_space (CHR '' '')) fp"

subsection \<open>Writing one configuration bit\<close>

text \<open>
  The memory-bank and frame-based arms end their line with \<open>fp << "\n"\<close>, a character
  sequence: unlike \<open>std::endl\<close> it does not flush the stream.
\<close>

definition write_fabric_config_bit_to_text_file ::
  "io \<Rightarrow> BitstreamManager \<Rightarrow> FabricBitstream \<Rightarrow> FabricBitId \<Rightarrow> e_config_protocol_type
     \<Rightarrow> int \<times> io" where
  "write_fabric_config_bit_to_text_file fp bitstream_manager fabric_bitstream fabric_bit config_type =
     (if \<not> valid_file_stream fp then (1, fp)
      else case config_type of
        CONFIG_MEM_STANDALONE \<Rightarrow>
          (0, put_bool (bit_value bitstream_manager (config_bit fabric_bitstream fabric_bit)) fp)
      | CONFIG_MEM_SCAN_CHAIN \<Rightarrow>
          (0, put_bool (bit_value bitstream_manager (config_bit fabric_bitstream fabric_bit)) fp)
      | CONFIG_MEM_MEMORY_BANK \<Rightarrow>
          (let fp1 = put_string (bit_bl_address fabric_bitstream fabric_bit) fp;
               fp2 = write_space_to_file fp1 1;
               fp3 = put_string (bit_wl_address fabric_bitstream fabric_bit) fp2;
               fp4 = write_space_to_file fp3 1;
               fp5 = put_bool (bit_value bitstream_manager (config_bit fabric_bitstream fabric_bit)) fp4
           in (0, put_string ''\<newline>'' fp5))
      | CONFIG_MEM_FRAME_BASED \<Rightarrow>
          (let fp1 = put_string (bit_address fabric_bitstream fabric_bit) fp;
               fp2 = write_space_to_file fp1 1;
               fp3 = put_bool (bit_value bitstream_manager (config_bit fabric_bitstream fabric_bit)) fp2
           in (0, put_string ''\<newline>'' fp3))
      | CONFIG_MEM_UNRECOGNIZED v \<Rightarrow> (1, vtr_log_event Error_Invalid_Protocol fp))"

subsection \<open>The flatten encoder (standalone protocol)\<close>

text \<open>
  The loop over \<open>fabric_bitstream.bits()\<close>: \<open>status\<close> is the loop variable, the list
  holds the bits not yet visited. The loop returns as soon as a bit reports status 1.
\<close>

fun flatten_loop ::
  "BitstreamManager \<Rightarrow> FabricBitstream \<Rightarrow> e_config_protocol_type \<Rightarrow> FabricBitId list
     \<Rightarrow> int \<Rightarrow> io \<Rightarrow> int \<times> io" where
  "flatten_loop bitstream_manager fabric_bitstream config_type [] status fp = (status, fp)"
| "flatten_loop bitstream_manager fabric_bitstream config_type (fabric_bit # rest) status fp =
     (case write_fabric_config_bit_to_text_file fp bitstream_manager fabric_bitstream
             fabric_bit config_type of
        (status', fp') \<Rightarrow>
          if status' = 1 then (status', fp')
          else flatten_loop bitstream_manager fabric_bitstream config_type rest status' fp')"

definition write_flatten_fabric_bitstream_to_text_file ::
  "io \<Rightarrow> BitstreamManager \<Rightarrow> FabricBitstream \<Rightarrow> ConfigProtocol \<Rightarrow> int \<times> io" where
  "write_flatten_fabric_bitstream_to_text_file fp bitstream_manager fabric_bitstream config_protocol =
     flatten_loop bitstream_manager fabric_bitstream (type config_protocol)
       (bits fabric_bitstream) 0 fp"

subsection \<open>The chain-region encoder (scan-chain protocol)\<close>

type_synonym ConfigChainFabricBitstream = "bool list list"

text \<open>
  Modelled from the spec: \<open>find_fabric_regional_bitstream_max_size\<close>
  is called but not defined in the source file. By the design of the chain-region
  encoder it is \<open>maxLen\<close>, the length of the longest region.
\<close>

definition find_fabric_regional_bitstream_max_size :: "FabricBitstream \<Rightarrow> nat" where
  "find_fabric_regional_bitstream_max_size fabric_bitstream =
     fold (\<lambda>region m. max m (length (region_bits fabric_bitstream region)))
       (regions fabric_bitstream) 0"

text \<open>
  Modelled from the spec: \<open>build_config_chain_fabric_bitstream_by_region\<close>
  is called but not defined in the source file. By the design of the chain-region
  encoder it gives, for each region in region order, the values of the region's bits
  in order, padded at the tail with the filler bit 0 up to the length of the longest
  region.
\<close>

definition build_config_chain_fabric_bitstream_by_region ::
  "BitstreamManager \<Rightarrow> FabricBitstream \<Rightarrow> ConfigChainFabricBitstream" where
  "build_config_chain_fabric_bitstream_by_region bitstream_manager fabric_bitstream =
     map (\<lambda>region.
            map (\<lambda>bit_id. bit_value bitstream_manager (config_bit fabric_bitstream bit_id))
              (region_bits fabric_bitstream region)
            @ replicate (find_fabric_regional_bitstream_max_size fabric_bitstream
                         - length (region_bits fabric_bitstream region)) False)
       (regions fabric_bitstream)"

text \<open>
  The inner loop over the regions writes \<open>region_bitstream[ibit]\<close> of each. Reading a
  vector beyond its size is undefined in C++: the model returns \<open>None\<close> there.
\<close>

fun chain_line :: "ConfigChainFabricBitstream \<Rightarrow> nat \<Rightarrow> io \<Rightarrow> io option" where
  "chain_line [] ibit fp = Some fp"
| "chain_line (region_bitstream # rest) ibit fp =
     (if ibit < length region_bitstream
      then chain_line rest ibit (put_bool (region_bitstream ! ibit) fp)
      else None)"

text \<open>The outer loop: \<open>for (ibit = 0; ibit < regional_bitstream_max_size; ++ibit)\<close>.\<close>

function chain_loop ::
  "ConfigChainFabricBitstream \<Rightarrow> nat \<Rightarrow> nat \<Rightarrow> io \<Rightarrow> io option" where
  "chain_loop regional_bitstreams regional_bitstream_max_size ibit fp =
     (if ibit < regional_bitstream_max_size
      then (case chain_line regional_bitstreams ibit fp of
              None \<Rightarrow> None
            | Some fp' \<Rightarrow>
                chain_loop regional_bitstreams regional_bitstream_max_size (Suc ibit)
                  (put_endl fp'))
      else Some fp)"
  by pat_completeness auto
termination
  by (relation "measure (\<lambda>(rs, n, ibit, fp). n - ibit)") auto

declare chain_loop.simps [simp del]

definition write_config_chain_fabric_bitstream_to_text_file ::
  "io \<Rightarrow> BitstreamManager \<Rightarrow> FabricBitstream \<Rightarrow> (int \<times> io) option" where
  "write_config_chain_fabric_bitstream_to_text_file fp bitstream_manager fabric_bitstream =
     (let status = 0;
          regional_bitstream_max_size = find_fabric_regional_bitstream_max_size fabric_bitstream;
          regional_bitstreams =
            build_config_chain_fabric_bitstream_by_region bitstream_manager fabric_bitstream
      in case chain_loop regional_bitstreams regional_bitstream_max_size 0 fp of
           None \<Rightarrow> None
         | Some fp' \<Rightarrow> Some (status, fp'))"

subsection \<open>The address-keyed encoders (memory-bank and frame-based protocols)\<close>

text \<open>
  Modelled from the spec: the containers \<open>MemoryBankFabricBitstream\<close> and
  \<open>FrameFabricBitstream\<close> are not declared in the source file,
  which only iterates them and reads the key and the data vector of each entry. By
  the design of the address-keyed encoder the groups are iterated in the order first
  encountered: the container is an association list in insertion order.
\<close>

type_synonym MemoryBankFabricBitstream = "((string \<times> string) \<times> bool list) list"
type_synonym FrameFabricBitstream = "(string \<times> bool list) list"

text \<open>
  Modelled from the spec: the step of the builders, which are not in the source file.
  A bit's value is appended to the data vector of its address's group, the group being
  created, after the existing ones, on first encounter.
\<close>

fun push_back_by_addr :: "'k \<Rightarrow> bool \<Rightarrow> ('k \<times> bool list) list \<Rightarrow> ('k \<times> bool list) list" where
  "push_back_by_addr addr din [] = [(addr, [din])]"
| "push_back_by_addr addr din ((addr', dins) # groups) =
     (if addr' = addr then (addr', dins @ [din]) # groups
      else (addr', dins) # push_back_by_addr addr din groups)"

text \<open>
  Modelled from the spec: \<open>build_memory_bank_fabric_bitstream_by_address\<close>
  is called but not defined in the source file. The bit source is scanned in
  order, the key of a bit being its (BL, WL) address pair. The builder receives the
  fabric bitstream alone, so the value of a bit is the data input the fabric bitstream
  holds for it.
\<close>

definition build_memory_bank_fabric_bitstream_by_address ::
  "FabricBitstream \<Rightarrow> MemoryBankFabricBitstream" where
  "build_memory_bank_fabric_bitstream_by_address fabric_bitstream =
     fold (\<lambda>bit_id fabric_bits_by_addr.
             push_back_by_addr
               (bit_bl_address fabric_bitstream bit_id, bit_wl_address fabric_bitstream bit_id)
               (bit_din fabric_bitstream bit_id) fabric_bits_by_addr)
       (bits fabric_bitstream) []"

text \<open>
  Modelled from the spec: \<open>build_frame_based_fabric_bitstream_by_address\<close>
  is called but not defined in the source file. As for the memory bank, with the
  single address of a bit as its key.
\<close>

definition build_frame_based_fabric_bitstream_by_address ::
  "FabricBitstream \<Rightarrow> FrameFabricBitstream" where
  "build_frame_based_fabric_bitstream_by_address fabric_bitstream =
     fold (\<lambda>bit_id fabric_bits_by_addr.
             push_back_by_addr (bit_address fabric_bitstream bit_id)
               (bit_din fabric_bitstream bit_id) fabric_bits_by_addr)
       (bits fabric_bitstream) []"

text \<open>The body of the loop over the (BL, WL) groups, and the encoder.\<close>

definition write_memory_bank_addr_din_pair ::
  "(string \<times> string) \<times> bool list \<Rightarrow> io \<Rightarrow> io" where
  "write_memory_bank_addr_din_pair addr_din_pair fp =
     (let fp1 = put_string (fst (fst addr_din_pair)) fp;
          fp2 = put_string '' '' fp1;
          fp3 = put_string (snd (fst addr_din_pair)) fp2;
          fp4 = put_string '' '' fp3;
          fp5 = fold put_bool (snd addr_din_pair) fp4
      in put_endl fp5)"

definition write_memory_bank_fabric_bitstream_to_text_file ::
  "io \<Rightarrow> FabricBitstream \<Rightarrow> int \<times> io" where
  "write_memory_bank_fabric_bitstream_to_text_file fp fabric_bitstream =
     (let status = 0;
          fabric_bits_by_addr = build_memory_bank_fabric_bitstream_by_address fabric_bitstream
      in (status, fold write_memory_bank_addr_din_pair fabric_bits_by_addr fp))"

text \<open>The body of the loop over the frame groups, and the encoder.\<close>

definition write_frame_based_addr_din_pair :: "string \<times> bool list \<Rightarrow> io \<Rightarrow> io" where
  "write_frame_based_addr_din_pair addr_din_pair fp =
     (let fp1 = put_string (fst addr_din_pair) fp;
          fp2 = put_string '' '' fp1;
          fp3 = fold put_bool (snd addr_din_pair) fp2
      in put_endl fp3)"

definition write_frame_based_fabric_bitstream_to_text_file ::
  "io \<Rightarrow> FabricBitstream \<Rightarrow> int \<times> io" where
  "write_frame_based_fabric_bitstream_to_text_file fp fabric_bitstream =
     (let status = 0;
          fabric_bits_by_addr = build_frame_based_fabric_bitstream_by_address fabric_bitstream
      in (status, fold write_frame_based_addr_din_pair fabric_bits_by_addr fp))"

subsection \<open>The top-level writer\<close>

text \<open>
  What opening a destination name for truncating write leads to: the name cannot be
  opened, or it can, and the destination accepts a number of characters (\<open>None\<close>: any
  number). The file system maps each name to its destination.
\<close>

datatype destination = Unopenable | Writable "nat option"

type_synonym file_system = "string \<Rightarrow> destination"

text \<open>\<open>fp.open(fname, out | trunc)\<close>: an opened destination starts empty.\<close>

definition fstream_open :: "file_system \<Rightarrow> string \<Rightarrow> io \<Rightarrow> io" where
  "fstream_open fs fname fp =
     (case fs fname of
        Unopenable \<Rightarrow> fp\<lparr>fp_good := False, fp_room := None, fp_pending := 0, fp_content := []\<rparr>
      | Writable room \<Rightarrow> fp\<lparr>fp_good := True, fp_room := room, fp_pending := 0, fp_content := []\<rparr>)"

text \<open>
  Modelled from the spec: \<open>check_file_stream\<close> is called but not defined in the
  source file. A destination that cannot be opened is fatal and aborts the call with nothing
  written: \<open>Inl\<close> is the aborted call, \<open>Inr\<close> the stream the call goes on with.
\<close>

definition check_file_stream :: "string \<Rightarrow> io \<Rightarrow> io + io" where
  "check_file_stream fname fp =
     (if valid_file_stream fp then Inr fp
      else Inl (vtr_log_event (Error_Invalid_File fname) fp))"

text \<open>
  The outcomes of a call: aborted by \<open>check_file_stream\<close>, undefined behaviour of an
  encoder, or returned with a status, the destination and the log.
\<close>

datatype outcome = Aborted io | Undefined_Behaviour | Returned int io

text \<open>
  The file system is a parameter of the model. The scoped timer logs its message when
  it is built and the elapsed time when the function returns; the time itself is not
  modelled. Closing the stream changes neither the destination content nor the log.
\<close>

definition write_fabric_bitstream_to_text_file ::
  "file_system \<Rightarrow> BitstreamManager \<Rightarrow> FabricBitstream \<Rightarrow> ConfigProtocol \<Rightarrow> string \<Rightarrow> bool
     \<Rightarrow> outcome" where
  "write_fabric_bitstream_to_text_file fs bitstream_manager fabric_bitstream config_protocol
       fname verbose =
     (let st0 = \<lparr>fp_good = False, fp_room = None, fp_pending = 0, fp_content = [], vtr_log = []\<rparr>;
          st1 = (if fname = [] then vtr_log_event Error_Empty_File_Name st0 else st0);
          st2 = vtr_log_event (Timer_Start (num_bits fabric_bitstream) fname) st1
      in case check_file_stream fname (fstream_open fs fname st2) of
           Inl aborted \<Rightarrow> Aborted aborted
         | Inr fp \<Rightarrow>
             (case (case type config_protocol of
                      CONFIG_MEM_STANDALONE \<Rightarrow>
                        Some (write_flatten_fabric_bitstream_to_text_file fp bitstream_manager
                                fabric_bitstream config_protocol)
                    | CONFIG_MEM_SCAN_CHAIN \<Rightarrow>
                        write_config_chain_fabric_bitstream_to_text_file fp bitstream_manager
                          fabric_bitstream
                    | CONFIG_MEM_MEMORY_BANK \<Rightarrow>
                        Some (write_memory_bank_fabric_bitstream_to_text_file fp fabric_bitstream)
                    | CONFIG_MEM_FRAME_BASED \<Rightarrow>
                        Some (write_frame_based_fabric_bitstream_to_text_file fp fabric_bitstream)
                    | CONFIG_MEM_UNRECOGNIZED v \<Rightarrow>
                        Some (1, vtr_log_event Error_Invalid_Protocol fp)) of
                None \<Rightarrow> Undefined_Behaviour
              | Some (status, fp1) \<Rightarrow>
                  (let fp2 = put_endl fp1;
                       fp3 = (if verbose
                              then vtr_log_event
                                     (Outputted_Bits (length (bits fabric_bitstream)) fname) fp2
                              else fp2)
                   in Returned status (vtr_log_event Timer_Finish fp3))))"

section \<open>Notions used in the statements and proofs\<close>

text \<open>
  A stream that is good and whose destination never refuses a write, and the stream
  after a text has reached its destination.
\<close>

definition healthy :: "io \<Rightarrow> bool" where
  "healthy fp = (fp_good fp \<and> fp_room fp = None)"

definition emitted :: "string \<Rightarrow> io \<Rightarrow> io" where
  "emitted s fp = fp\<lparr>fp_content := fp_content fp @ s\<rparr>"

text \<open>The distinct elements of a list, in the order of their first occurrence.\<close>

fun first_seen :: "'a list \<Rightarrow> 'a list" where
  "first_seen [] = []"
| "first_seen (x # xs) = x # first_seen (removeAll x xs)"

text \<open>
  Two states whose streams agree (the logs may differ), two encoder results with the
  same status and agreeing streams, and two outcomes of the same kind with the same
  status and the same destination content.
\<close>

definition same_file :: "io \<Rightarrow> io \<Rightarrow> bool" where
  "same_file a b =
     (fp_good a = fp_good b \<and> fp_room a = fp_room b \<and> fp_pending a = fp_pending b
      \<and> fp_content a = fp_content b)"

definition same_result :: "int \<times> io \<Rightarrow> int \<times> io \<Rightarrow> bool" where
  "same_result x y = (fst x = fst y \<and> same_file (snd x) (snd y))"

fun same_outcome :: "outcome \<Rightarrow> outcome \<Rightarrow> bool" where
  "same_outcome (Returned s a) (Returned t b) = (s = t \<and> fp_content a = fp_content b)"
| "same_outcome (Aborted a) (Aborted b) = (fp_content a = fp_content b)"
| "same_outcome Undefined_Behaviour Undefined_Behaviour = True"
| "same_outcome x y = False"

text \<open>
  Three stages of the top-level writer, named for the proofs: the state once a
  writable destination is open, the switch over the protocol (with the chain encoder's
  loops as folds), and the steps after the switch.
\<close>

definition opened :: "FabricBitstream \<Rightarrow> string \<Rightarrow> nat option \<Rightarrow> io" where
  "opened fb fname room =
     \<lparr>fp_good = True, fp_room = room, fp_pending = 0, fp_content = [],
      vtr_log = (if fname = [] then [Error_Empty_File_Name] else [])
                @ [Timer_Start (num_bits fb) fname]\<rparr>"

definition finished :: "FabricBitstream \<Rightarrow> string \<Rightarrow> bool \<Rightarrow> io \<Rightarrow> io" where
  "finished fb fname verbose fp =
     vtr_log_event Timer_Finish
       (if verbose then vtr_log_event (Outputted_Bits (length (bits fb)) fname) (put_endl fp)
        else put_endl fp)"

definition routed :: "io \<Rightarrow> BitstreamManager \<Rightarrow> FabricBitstream \<Rightarrow> ConfigProtocol \<Rightarrow> int \<times> io" where
  "routed fp bm fb cp =
     (case type cp of
        CONFIG_MEM_STANDALONE \<Rightarrow> write_flatten_fabric_bitstream_to_text_file fp bm fb cp
      | CONFIG_MEM_SCAN_CHAIN \<Rightarrow>
          (0, fold (\<lambda>i fp. put_endl
                (fold (\<lambda>r. put_bool (r ! i))
                   (build_config_chain_fabric_bitstream_by_region bm fb) fp))
                [0..<find_fabric_regional_bitstream_max_size fb] fp)
      | CONFIG_MEM_MEMORY_BANK \<Rightarrow> write_memory_bank_fabric_bitstream_to_text_file fp fb
      | CONFIG_MEM_FRAME_BASED \<Rightarrow> write_frame_based_fabric_bitstream_to_text_file fp fb
      | CONFIG_MEM_UNRECOGNIZED v \<Rightarrow> (1, vtr_log_event Error_Invalid_Protocol fp))"



subsection \<open>Example inputs\<close>

text \<open>
  Four bits with the values 1, 0, 1, 1. Bits 0, 1 and 3 share the address \<open>101\<close>
  (BL \<open>01\<close>, WL \<open>10\<close>); bit 2 has the address \<open>011\<close> (BL \<open>00\<close>, WL \<open>11\<close>), which sorts
  before the first one but is met after it.
\<close>

definition example_bitstream_manager :: BitstreamManager where
  "example_bitstream_manager = \<lparr>bit_value = (\<lambda>c. c \<noteq> 1)\<rparr>"

definition example_fabric_bitstream :: FabricBitstream where
  "example_fabric_bitstream =
     \<lparr>bits = [0, 1, 2, 3],
      config_bit = (\<lambda>b. b),
      bit_address = (\<lambda>b. if b = 2 then ''011'' else ''101''),
      bit_bl_address = (\<lambda>b. if b = 2 then ''00'' else ''01''),
      bit_wl_address = (\<lambda>b. if b = 2 then ''11'' else ''10''),
      bit_din = (\<lambda>b. b \<noteq> 1),
      regions = [],
      region_bits = (\<lambda>r. [])\<rparr>"

text \<open>Two regions: region 0 holds the values 1, 0, 1 and region 1 the values 0, 1.\<close>

definition example_chain_bitstream :: FabricBitstream where
  "example_chain_bitstream =
     \<lparr>bits = [0, 1, 2, 3, 4],
      config_bit = (\<lambda>b. if b = 3 then 1 else b),
      bit_address = (\<lambda>b. []),
      bit_bl_address = (\<lambda>b. []),
      bit_wl_address = (\<lambda>b. []),
      bit_din = (\<lambda>b. False),
      regions = [0, 1],
      region_bits = (\<lambda>r. if r = 0 then [0, 1, 2] else [3, 4])\<rparr>"

text \<open>An open, empty stream on a destination that accepts everything.\<close>

definition example_stream :: io where
  "example_stream = \<lparr>fp_good = True, fp_room = None, fp_pending = 0, fp_content = [], vtr_log = []\<rparr>"

section \<open>Lemmas\<close>

lemma healthy_emitted [simp]: "healthy (emitted s fp) = healthy fp"
  by (simp add: healthy_def emitted_def)

lemma emitted_emitted [simp]: "emitted t (emitted s fp) = emitted (s @ t) fp"
  by (simp add: emitted_def)

lemma emitted_Nil [simp]: "emitted [] fp = fp"
  by (simp add: emitted_def)

lemma put_char_healthy: "healthy fp \<Longrightarrow> put_char c fp = emitted [c] fp"
  by (simp add: healthy_def put_char_def emitted_def)

lemma put_string_healthy: "healthy fp \<Longrightarrow> put_string s fp = emitted s fp"
  unfolding put_string_def
  by (induction s arbitrary: fp) (simp_all add: put_char_healthy)

lemma put_bool_healthy: "healthy fp \<Longrightarrow> put_bool b fp = emitted [bit_digit b] fp"
  by (simp add: put_bool_def put_char_healthy)

lemma flush_healthy: "healthy fp \<Longrightarrow> flush fp = fp"
  by (simp add: healthy_def flush_def)

lemma put_endl_healthy: "healthy fp \<Longrightarrow> put_endl fp = emitted [CHR 0x0A] fp"
  by (simp add: put_endl_def put_char_healthy flush_healthy)

lemma fold_put_bool_healthy:
  "healthy fp \<Longrightarrow> fold put_bool vs fp = emitted (map bit_digit vs) fp"
  by (induction vs arbitrary: fp) (simp_all add: put_bool_healthy)

lemma flatten_loop_standalone:
  "healthy fp \<Longrightarrow>
   flatten_loop bm fb CONFIG_MEM_STANDALONE bs 0 fp =
     (0, emitted (map (\<lambda>b. bit_digit (bit_value bm (config_bit fb b))) bs) fp)"
  by (induction bs arbitrary: fp)
     (simp_all add: write_fabric_config_bit_to_text_file_def valid_file_stream_def
        put_bool_healthy, simp_all add: healthy_def)

lemma chain_line_fold:
  "(\<And>r. r \<in> set rs \<Longrightarrow> ibit < length r) \<Longrightarrow>
   chain_line rs ibit fp = Some (fold (\<lambda>r. put_bool (r ! ibit)) rs fp)"
  by (induction rs arbitrary: fp) simp_all

lemma chain_loop_fold:
  "(\<And>r. r \<in> set rs \<Longrightarrow> n \<le> length r) \<Longrightarrow>
   chain_loop rs n ibit fp =
     Some (fold (\<lambda>i fp. put_endl (fold (\<lambda>r. put_bool (r ! i)) rs fp)) [ibit..<n] fp)"
proof (induction rs n ibit fp rule: chain_loop.induct)
  case (1 rs n ibit fp)
  show ?case
  proof (cases "ibit < n")
    case True
    have inr: "\<And>r. r \<in> set rs \<Longrightarrow> ibit < length r"
      using "1.prems" True by fastforce
    have line: "chain_line rs ibit fp = Some (fold (\<lambda>r. put_bool (r ! ibit)) rs fp)"
      by (rule chain_line_fold) (rule inr)
    have "chain_loop rs n (Suc ibit) (put_endl (fold (\<lambda>r. put_bool (r ! ibit)) rs fp)) =
          Some (fold (\<lambda>i fp. put_endl (fold (\<lambda>r. put_bool (r ! i)) rs fp)) [Suc ibit..<n]
                  (put_endl (fold (\<lambda>r. put_bool (r ! ibit)) rs fp)))"
      using "1.IH" [OF True line] "1.prems" by simp
    then show ?thesis
      using True line by (simp add: chain_loop.simps [of rs n ibit] upt_conv_Cons)
  next
    case False
    then show ?thesis by (simp add: chain_loop.simps [of rs n ibit])
  qed
qed

lemma fold_max_ge_init: "m \<le> fold (\<lambda>x m. max m (f x)) xs (m::nat)"
proof (induction xs arbitrary: m)
  case Nil
  show ?case by simp
next
  case (Cons x xs)
  have "m \<le> max m (f x)" by simp
  also have "\<dots> \<le> fold (\<lambda>x m. max m (f x)) xs (max m (f x))" by (rule Cons.IH)
  finally show ?case by simp
qed

lemma fold_max_ge_elem:
  "x \<in> set xs \<Longrightarrow> f x \<le> fold (\<lambda>x m. max m (f x)) xs (m::nat)"
proof (induction xs arbitrary: m)
  case Nil
  then show ?case by simp
next
  case (Cons y ys)
  show ?case
  proof (cases "x = y")
    case True
    have "f y \<le> max m (f y)" by simp
    also have "\<dots> \<le> fold (\<lambda>x m. max m (f x)) ys (max m (f y))" by (rule fold_max_ge_init)
    finally show ?thesis using True by simp
  next
    case False
    with Cons.prems have "x \<in> set ys" by simp
    then show ?thesis using Cons.IH by simp
  qed
qed

lemma fold_max_eq_Max:
  "fold (\<lambda>x m. max m (f x)) xs (m::nat) = Max (insert m (f ` set xs))"
proof (induction xs arbitrary: m)
  case Nil
  show ?case by simp
next
  case (Cons x xs)
  have "Max (insert (max m (f x)) (f ` set xs)) = Max (insert m (insert (f x) (f ` set xs)))"
    by (cases "f ` set xs = {}") (simp_all add: max.assoc)
  then show ?case using Cons.IH [of "max m (f x)"] by simp
qed

lemma region_size_le_max:
  "region \<in> set (regions fb) \<Longrightarrow>
   length (region_bits fb region) \<le> find_fabric_regional_bitstream_max_size fb"
  unfolding find_fabric_regional_bitstream_max_size_def
  by (rule fold_max_ge_elem [where f = "\<lambda>r. length (region_bits fb r)"])

lemma regional_bitstream_length:
  "r \<in> set (build_config_chain_fabric_bitstream_by_region bm fb) \<Longrightarrow>
   length r = find_fabric_regional_bitstream_max_size fb"
  by (auto simp: build_config_chain_fabric_bitstream_by_region_def dest: region_size_le_max)

lemma write_config_chain_fold:
  "write_config_chain_fabric_bitstream_to_text_file fp bm fb =
     Some (0, fold (\<lambda>i fp. put_endl
                   (fold (\<lambda>r. put_bool (r ! i))
                      (build_config_chain_fabric_bitstream_by_region bm fb) fp))
                [0..<find_fabric_regional_bitstream_max_size fb] fp)"
proof -
  have "chain_loop (build_config_chain_fabric_bitstream_by_region bm fb)
          (find_fabric_regional_bitstream_max_size fb) 0 fp =
        Some (fold (\<lambda>i fp. put_endl
                   (fold (\<lambda>r. put_bool (r ! i))
                      (build_config_chain_fabric_bitstream_by_region bm fb) fp))
                [0..<find_fabric_regional_bitstream_max_size fb] fp)"
    by (rule chain_loop_fold) (simp add: regional_bitstream_length)
  then show ?thesis
    by (simp add: write_config_chain_fabric_bitstream_to_text_file_def)
qed

lemma fold_emitted:
  "(\<And>x fp. healthy fp \<Longrightarrow> f x fp = emitted (g x) fp) \<Longrightarrow> healthy fp \<Longrightarrow>
   fold f xs fp = emitted (concat (map g xs)) fp"
  by (induction xs arbitrary: fp) simp_all

lemma chain_column_healthy:
  "healthy fp \<Longrightarrow>
   put_endl (fold (\<lambda>r. put_bool (r ! i)) rs fp) =
     emitted (map (\<lambda>r. bit_digit (r ! i)) rs @ [CHR 0x0A]) fp"
proof -
  assume h: "healthy fp"
  have "fold (\<lambda>r. put_bool (r ! i)) rs fp = emitted (concat (map (\<lambda>r. [bit_digit (r ! i)]) rs)) fp"
    by (rule fold_emitted [OF _ h]) (simp add: put_bool_healthy)
  moreover have "concat (map (\<lambda>r. [bit_digit (r ! i)]) rs) = map (\<lambda>r. bit_digit (r ! i)) rs"
    by (induction rs) simp_all
  ultimately show ?thesis using h by (simp add: put_endl_healthy)
qed

lemma write_config_chain_healthy:
  assumes h: "healthy fp"
  shows "write_config_chain_fabric_bitstream_to_text_file fp bm fb =
     Some (0, emitted (concat (map (\<lambda>i. map (\<lambda>r. bit_digit (r ! i))
                         (build_config_chain_fabric_bitstream_by_region bm fb) @ [CHR 0x0A])
                [0..<find_fabric_regional_bitstream_max_size fb])) fp)"
  unfolding write_config_chain_fold
  by (simp add: fold_emitted [OF chain_column_healthy h])

lemma write_memory_bank_addr_din_pair_healthy:
  "healthy fp \<Longrightarrow>
   write_memory_bank_addr_din_pair ((bl, wl), dins) fp =
     emitted (bl @ '' '' @ wl @ '' '' @ map bit_digit dins @ [CHR 0x0A]) fp"
  by (simp add: write_memory_bank_addr_din_pair_def put_string_healthy fold_put_bool_healthy
        put_endl_healthy)

lemma write_frame_based_addr_din_pair_healthy:
  "healthy fp \<Longrightarrow>
   write_frame_based_addr_din_pair (addr, dins) fp =
     emitted (addr @ '' '' @ map bit_digit dins @ [CHR 0x0A]) fp"
  by (simp add: write_frame_based_addr_din_pair_def put_string_healthy fold_put_bool_healthy
        put_endl_healthy)

lemma fold_memory_bank_healthy:
  assumes h: "healthy fp"
  shows "fold write_memory_bank_addr_din_pair groups fp =
     emitted (concat (map (\<lambda>((bl, wl), dins).
                bl @ '' '' @ wl @ '' '' @ map bit_digit dins @ [CHR 0x0A]) groups)) fp"
  by (rule fold_emitted [OF _ h]) (auto simp: write_memory_bank_addr_din_pair_healthy)

lemma fold_frame_based_healthy:
  assumes h: "healthy fp"
  shows "fold write_frame_based_addr_din_pair groups fp =
     emitted (concat (map (\<lambda>(addr, dins).
                addr @ '' '' @ map bit_digit dins @ [CHR 0x0A]) groups)) fp"
  by (rule fold_emitted [OF _ h]) (auto simp: write_frame_based_addr_din_pair_healthy)

lemma keys_push_back_by_addr:
  "map fst (push_back_by_addr k v gs) =
     (if k \<in> fst ` set gs then map fst gs else map fst gs @ [k])"
  by (induction gs) force+

lemma first_seen_filter_notin:
  "first_seen (filter (\<lambda>k. k \<notin> A) (x # xs)) =
     (if x \<in> A then first_seen (filter (\<lambda>k. k \<notin> A) xs)
      else x # first_seen (filter (\<lambda>k. k \<notin> insert x A) xs))"
proof -
  have "removeAll x (filter (\<lambda>k. k \<notin> A) xs) = filter (\<lambda>k. k \<notin> insert x A) xs"
    by (induction xs) auto
  then show ?thesis by simp
qed

lemma keys_fold_push_back:
  "map fst (fold (\<lambda>b gs. push_back_by_addr (key b) (val b) gs) bs gs) =
     map fst gs @ first_seen (filter (\<lambda>k. k \<notin> fst ` set gs) (map key bs))"
proof (induction bs arbitrary: gs)
  case Nil
  show ?case by simp
next
  case (Cons b bs)
  let ?gs' = "push_back_by_addr (key b) (val b) gs"
  have keys: "map fst ?gs' = (if key b \<in> fst ` set gs then map fst gs else map fst gs @ [key b])"
    by (rule keys_push_back_by_addr)
  have set_keys: "fst ` set ?gs' = insert (key b) (fst ` set gs)"
  proof -
    have "fst ` set ?gs' = set (map fst ?gs')" by simp
    also have "\<dots> = insert (key b) (fst ` set gs)" unfolding keys by auto
    finally show ?thesis .
  qed
  have "map fst (fold (\<lambda>b gs. push_back_by_addr (key b) (val b) gs) (b # bs) gs) =
        map fst ?gs' @ first_seen (filter (\<lambda>k. k \<notin> fst ` set ?gs') (map key bs))"
    using Cons.IH [of ?gs'] by simp
  also have "\<dots> = map fst gs @ first_seen (filter (\<lambda>k. k \<notin> fst ` set gs) (map key (b # bs)))"
  proof (cases "key b \<in> fst ` set gs")
    case True
    then have "insert (key b) (fst ` set gs) = fst ` set gs" by auto
    with True show ?thesis
      unfolding set_keys keys by (simp add: first_seen_filter_notin del: first_seen.simps)
  next
    case False
    then show ?thesis
      unfolding set_keys keys
      using first_seen_filter_notin [of "fst ` set gs" "key b" "map key bs"] by simp
  qed
  finally show ?case .
qed

lemma map_of_push_back_by_addr:
  "map_of (push_back_by_addr k v gs) k' =
     (if k' = k then Some ((case map_of gs k of None \<Rightarrow> [] | Some vs \<Rightarrow> vs) @ [v])
      else map_of gs k')"
  by (induction gs) auto

lemma map_of_fold_push_back:
  "map_of (fold (\<lambda>b gs. push_back_by_addr (key b) (val b) gs) bs gs) k =
     (if k \<in> key ` set bs
      then Some ((case map_of gs k of None \<Rightarrow> [] | Some vs \<Rightarrow> vs)
                 @ map val (filter (\<lambda>b. key b = k) bs))
      else map_of gs k)"
proof (induction bs arbitrary: gs)
  case Nil
  show ?case by simp
next
  case (Cons b bs)
  show ?case
    unfolding fold_Cons comp_apply Cons.IH map_of_push_back_by_addr
    by (auto simp: filter_empty_conv image_iff)
qed

lemma distinct_keys_fold_push_back:
  "distinct (map fst gs) \<Longrightarrow>
   distinct (map fst (fold (\<lambda>b gs. push_back_by_addr (key b) (val b) gs) bs gs))"
  by (induction bs arbitrary: gs) (simp_all add: keys_push_back_by_addr)

lemma group_dins:
  assumes "(k, vs) \<in> set (fold (\<lambda>b gs. push_back_by_addr (key b) (val b) gs) bs [])"
  shows "vs = map val (filter (\<lambda>b. key b = k) bs)"
proof -
  let ?gs = "fold (\<lambda>b gs. push_back_by_addr (key b) (val b) gs) bs []"
  have "distinct (map fst ?gs)" by (rule distinct_keys_fold_push_back) simp
  with assms have "map_of ?gs k = Some vs" by simp
  then show ?thesis
    unfolding map_of_fold_push_back by (simp split: if_splits)
qed

lemma same_file_log_left [simp]: "same_file (vtr_log_event e a) b = same_file a b"
  by (simp add: same_file_def vtr_log_event_def)

lemma same_file_log_right [simp]: "same_file a (vtr_log_event e b) = same_file a b"
  by (simp add: same_file_def vtr_log_event_def)

lemma same_file_device_write:
  "same_file a b \<Longrightarrow> same_file (device_write k n a) (device_write k n b)"
  by (simp add: same_file_def device_write_def)

lemma same_file_put_char: "same_file a b \<Longrightarrow> same_file (put_char c a) (put_char c b)"
proof -
  assume sf: "same_file a b"
  then have "same_file (a\<lparr>fp_content := fp_content a @ [c]\<rparr>) (b\<lparr>fp_content := fp_content b @ [c]\<rparr>)"
    by (simp add: same_file_def)
  then have "same_file (device_write k n (a\<lparr>fp_content := fp_content a @ [c]\<rparr>))
               (device_write k n (b\<lparr>fp_content := fp_content b @ [c]\<rparr>))" for k n
    by (rule same_file_device_write)
  with sf show ?thesis
    by (cases "fp_room b") (auto simp: same_file_def put_char_def)
qed

lemma same_file_flush: "same_file a b \<Longrightarrow> same_file (flush a) (flush b)"
proof -
  assume sf: "same_file a b"
  then have "same_file (device_write k n a) (device_write k n b)" for k n
    by (rule same_file_device_write)
  with sf show ?thesis
    by (cases "fp_room b") (auto simp: same_file_def flush_def)
qed

lemma same_file_fold:
  "(\<And>x a b. same_file a b \<Longrightarrow> same_file (f x a) (f x b)) \<Longrightarrow> same_file a b \<Longrightarrow>
   same_file (fold f xs a) (fold f xs b)"
  by (induction xs arbitrary: a b) simp_all

lemma same_file_put_string: "same_file a b \<Longrightarrow> same_file (put_string s a) (put_string s b)"
  unfolding put_string_def by (rule same_file_fold) (rule same_file_put_char)

lemma same_file_put_bool: "same_file a b \<Longrightarrow> same_file (put_bool v a) (put_bool v b)"
  unfolding put_bool_def by (rule same_file_put_char)

lemma same_file_put_endl: "same_file a b \<Longrightarrow> same_file (put_endl a) (put_endl b)"
  unfolding put_endl_def by (intro same_file_flush same_file_put_char)

lemma same_file_write_space:
  "same_file a b \<Longrightarrow> same_file (write_space_to_file a n) (write_space_to_file b n)"
  unfolding write_space_to_file_def by (rule same_file_put_string)

lemma same_result_write_bit:
  assumes "same_file a b"
  shows "same_result (write_fabric_config_bit_to_text_file a bm fb fbit t)
           (write_fabric_config_bit_to_text_file b bm fb fbit t)"
proof (cases "fp_good a")
  case False
  with assms show ?thesis
    by (simp add: same_result_def write_fabric_config_bit_to_text_file_def
          valid_file_stream_def same_file_def)
next
  case True
  with assms have "fp_good b" by (simp add: same_file_def)
  with True assms show ?thesis
    by (cases t)
       (simp_all add: same_result_def write_fabric_config_bit_to_text_file_def
          valid_file_stream_def same_file_put_bool same_file_put_endl same_file_put_string
          same_file_write_space Let_def)
qed

lemma same_result_flatten_loop:
  "same_file a b \<Longrightarrow>
   same_result (flatten_loop bm fb t bs status a) (flatten_loop bm fb t bs status b)"
proof (induction bs arbitrary: a b status)
  case Nil
  then show ?case by (simp add: same_result_def)
next
  case (Cons fbit bs)
  obtain s1 a' where wa: "write_fabric_config_bit_to_text_file a bm fb fbit t = (s1, a')"
    by (cases "write_fabric_config_bit_to_text_file a bm fb fbit t")
  obtain s2 b' where wb: "write_fabric_config_bit_to_text_file b bm fb fbit t = (s2, b')"
    by (cases "write_fabric_config_bit_to_text_file b bm fb fbit t")
  from same_result_write_bit [OF Cons.prems, of bm fb fbit t] wa wb
  have eq: "s1 = s2" and sf: "same_file a' b'" by (simp_all add: same_result_def)
  show ?case
    using eq sf wa wb Cons.IH [OF sf] by (simp add: same_result_def)
qed

lemma same_file_chain:
  "same_file a b \<Longrightarrow>
   same_file (fold (\<lambda>i fp. put_endl (fold (\<lambda>r. put_bool (r ! i)) rs fp)) is a)
     (fold (\<lambda>i fp. put_endl (fold (\<lambda>r. put_bool (r ! i)) rs fp)) is b)"
  by (rule same_file_fold) (intro same_file_put_endl same_file_fold same_file_put_bool)

lemma same_file_memory_bank_pair:
  "same_file a b \<Longrightarrow>
   same_file (write_memory_bank_addr_din_pair p a) (write_memory_bank_addr_din_pair p b)"
  unfolding write_memory_bank_addr_din_pair_def Let_def
  by (intro same_file_put_endl same_file_fold same_file_put_bool same_file_put_string)

lemma same_file_frame_based_pair:
  "same_file a b \<Longrightarrow>
   same_file (write_frame_based_addr_din_pair p a) (write_frame_based_addr_din_pair p b)"
  unfolding write_frame_based_addr_din_pair_def Let_def
  by (intro same_file_put_endl same_file_fold same_file_put_bool same_file_put_string)

lemma top_level_unopenable:
  assumes "fs fname = Unopenable"
  shows "write_fabric_bitstream_to_text_file fs bm fb cp fname verbose =
     Aborted \<lparr>fp_good = False, fp_room = None, fp_pending = 0, fp_content = [],
       vtr_log = (if fname = [] then [Error_Empty_File_Name] else [])
                 @ [Timer_Start (num_bits fb) fname, Error_Invalid_File fname]\<rparr>"
  using assms
  by (simp add: write_fabric_bitstream_to_text_file_def fstream_open_def check_file_stream_def
        valid_file_stream_def vtr_log_event_def)

lemma top_level_writable:
  assumes "fs fname = Writable room"
  shows "write_fabric_bitstream_to_text_file fs bm fb cp fname verbose =
     (case routed (opened fb fname room) bm fb cp of
        (status, fp1) \<Rightarrow> Returned status (finished fb fname verbose fp1))"
proof -
  have op: "check_file_stream fname (fstream_open fs fname
              (vtr_log_event (Timer_Start (num_bits fb) fname)
                 (if fname = [] then vtr_log_event Error_Empty_File_Name
                    \<lparr>fp_good = False, fp_room = None, fp_pending = 0, fp_content = [], vtr_log = []\<rparr>
                  else \<lparr>fp_good = False, fp_room = None, fp_pending = 0, fp_content = [], vtr_log = []\<rparr>))) =
            Inr (opened fb fname room)"
    using assms
    by (simp add: fstream_open_def check_file_stream_def valid_file_stream_def
          vtr_log_event_def opened_def)
  show ?thesis
    unfolding write_fabric_bitstream_to_text_file_def Let_def op routed_def
    by (cases "type cp")
       (simp_all add: write_config_chain_fold finished_def Let_def split: prod.splits)
qed

lemma healthy_opened [simp]: "healthy (opened fb fname None)"
  by (simp add: healthy_def opened_def)

lemma fp_content_opened [simp]: "fp_content (opened fb fname room) = []"
  by (simp add: opened_def)

lemma fp_content_finished_healthy:
  "healthy fp \<Longrightarrow> fp_content (finished fb fname verbose fp) = fp_content fp @ [CHR 0x0A]"
  by (simp add: finished_def put_endl_healthy vtr_log_event_def emitted_def)

lemma same_file_opened: "same_file (opened fb n1 room) (opened fb n2 room)"
  by (simp add: same_file_def opened_def)

lemma same_file_finished:
  "same_file a b \<Longrightarrow> same_file (finished fb n1 v1 a) (finished fb n2 v2 b)"
  by (simp add: finished_def same_file_put_endl)

lemma same_result_routed:
  assumes sf: "same_file a b"
  shows "same_result (routed a bm fb cp) (routed b bm fb cp)"
proof (cases "type cp")
  case CONFIG_MEM_STANDALONE
  then show ?thesis
    by (simp add: routed_def write_flatten_fabric_bitstream_to_text_file_def
          same_result_flatten_loop [OF sf])
next
  case CONFIG_MEM_SCAN_CHAIN
  then show ?thesis
    by (simp add: routed_def same_result_def same_file_chain [OF sf])
next
  case CONFIG_MEM_MEMORY_BANK
  have "same_file (fold write_memory_bank_addr_din_pair gs a)
          (fold write_memory_bank_addr_din_pair gs b)" for gs
    by (rule same_file_fold [OF same_file_memory_bank_pair sf])
  with CONFIG_MEM_MEMORY_BANK show ?thesis
    by (simp add: routed_def same_result_def write_memory_bank_fabric_bitstream_to_text_file_def)
next
  case CONFIG_MEM_FRAME_BASED
  have "same_file (fold write_frame_based_addr_din_pair gs a)
          (fold write_frame_based_addr_din_pair gs b)" for gs
    by (rule same_file_fold [OF same_file_frame_based_pair sf])
  with CONFIG_MEM_FRAME_BASED show ?thesis
    by (simp add: routed_def same_result_def write_frame_based_fabric_bitstream_to_text_file_def)
next
  case (CONFIG_MEM_UNRECOGNIZED v)
  with sf show ?thesis by (simp add: routed_def same_result_def)
qed

lemma run_same_outcome:
  assumes "fs1 n1 = fs2 n2"
  shows "same_outcome (write_fabric_bitstream_to_text_file fs1 bm fb cp n1 v1)
           (write_fabric_bitstream_to_text_file fs2 bm fb cp n2 v2)"
proof (cases "fs2 n2")
  case Unopenable
  with assms show ?thesis by (simp add: top_level_unopenable)
next
  case (Writable room)
  with assms have w1: "fs1 n1 = Writable room" by simp
  obtain s1 a where r1: "routed (opened fb n1 room) bm fb cp = (s1, a)"
    by (cases "routed (opened fb n1 room) bm fb cp")
  obtain s2 b where r2: "routed (opened fb n2 room) bm fb cp = (s2, b)"
    by (cases "routed (opened fb n2 room) bm fb cp")
  from same_result_routed [OF same_file_opened [of fb n1 room n2], of bm fb cp] r1 r2
  have "s1 = s2" and "same_file a b" by (simp_all add: same_result_def)
  then have "s1 = s2" and "same_file (finished fb n1 v1 a) (finished fb n2 v2 b)"
    by (simp_all add: same_file_finished)
  then show ?thesis
    unfolding top_level_writable [of fs1 n1 room, OF w1]
      top_level_writable [of fs2 n2 room, OF Writable] r1 r2
    by (simp add: same_file_def)
qed

lemma routed_healthy:
  assumes h: "healthy fp"
  shows "routed fp bm fb cp =
     (case type cp of CONFIG_MEM_UNRECOGNIZED v \<Rightarrow> 1 | _ \<Rightarrow> 0,
      case type cp of
        CONFIG_MEM_STANDALONE \<Rightarrow>
          emitted (map (\<lambda>b. bit_digit (bit_value bm (config_bit fb b))) (bits fb)) fp
      | CONFIG_MEM_SCAN_CHAIN \<Rightarrow>
          emitted (concat (map (\<lambda>i. map (\<lambda>r. bit_digit (r ! i))
                     (build_config_chain_fabric_bitstream_by_region bm fb) @ [CHR 0x0A])
                  [0..<find_fabric_regional_bitstream_max_size fb])) fp
      | CONFIG_MEM_MEMORY_BANK \<Rightarrow>
          emitted (concat (map (\<lambda>((bl, wl), dins).
                     bl @ '' '' @ wl @ '' '' @ map bit_digit dins @ [CHR 0x0A])
                  (build_memory_bank_fabric_bitstream_by_address fb))) fp
      | CONFIG_MEM_FRAME_BASED \<Rightarrow>
          emitted (concat (map (\<lambda>(addr, dins). addr @ '' '' @ map bit_digit dins @ [CHR 0x0A])
                  (build_frame_based_fabric_bitstream_by_address fb))) fp
      | CONFIG_MEM_UNRECOGNIZED v \<Rightarrow> vtr_log_event Error_Invalid_Protocol fp)"
  by (cases "type cp")
     (simp_all add: routed_def write_flatten_fabric_bitstream_to_text_file_def
        flatten_loop_standalone [OF h] fold_emitted [OF chain_column_healthy h]
        write_memory_bank_fabric_bitstream_to_text_file_def fold_memory_bank_healthy [OF h]
        write_frame_based_fabric_bitstream_to_text_file_def fold_frame_based_healthy [OF h])

lemma bit_digit_fun: "bit_digit = (\<lambda>v. if v then CHR ''1'' else CHR ''0'')"
  by (rule ext) (simp add: bit_digit_def)

lemma count_line_terminators:
  "length (filter (\<lambda>c. c = CHR 0x0A)
     (concat (map (\<lambda>i. map (\<lambda>r. if r ! i then CHR ''1'' else CHR ''0'') rs @ [CHR 0x0A]) is))) =
   length is"
proof (induction "is")
  case Nil
  show ?case by simp
next
  case (Cons i "is")
  have "filter (\<lambda>c. c = CHR 0x0A) (map (\<lambda>r. if r ! i then CHR ''1'' else CHR ''0'') rs) = []"
    by (induction rs) simp_all
  with Cons show ?case by simp
qed

lemma build_groups:
  "fold (\<lambda>b gs. push_back_by_addr (key b) (val b) gs) bs [] =
     map (\<lambda>k. (k, map val (filter (\<lambda>b. key b = k) bs))) (first_seen (map key bs))"
proof -
  let ?gs = "fold (\<lambda>b gs. push_back_by_addr (key b) (val b) gs) bs []"
  let ?f = "\<lambda>k. map val (filter (\<lambda>b. key b = k) bs)"
  have keys: "map fst ?gs = first_seen (map key bs)"
    using keys_fold_push_back [of key val bs "[]"] by simp
  have "map (\<lambda>p. (fst p, ?f (fst p))) ?gs = map (\<lambda>p. p) ?gs"
  proof (rule map_cong [OF refl])
    fix p assume "p \<in> set ?gs"
    then have "(fst p, snd p) \<in> set ?gs" by simp
    then have "snd p = ?f (fst p)" by (rule group_dins)
    then show "(fst p, ?f (fst p)) = p" by (cases p) simp
  qed
  then have "?gs = map (\<lambda>k. (k, ?f k)) (map fst ?gs)"
    by (simp add: comp_def)
  then show ?thesis unfolding keys .
qed

lemma healthy_vtr_log_event [simp]: "healthy (vtr_log_event e fp) = healthy fp"
  by (simp add: healthy_def vtr_log_event_def)

lemma vtr_log_device_write [simp]: "vtr_log (device_write k n fp) = vtr_log fp"
  by (simp add: device_write_def)

lemma vtr_log_put_char [simp]: "vtr_log (put_char c fp) = vtr_log fp"
  by (simp add: put_char_def split: option.splits)

lemma vtr_log_flush [simp]: "vtr_log (flush fp) = vtr_log fp"
  by (simp add: flush_def split: option.splits)

lemma vtr_log_fold:
  "(\<And>x fp. vtr_log (f x fp) = vtr_log fp) \<Longrightarrow> vtr_log (fold f xs fp) = vtr_log fp"
  by (induction xs arbitrary: fp) simp_all

lemma vtr_log_put_string [simp]: "vtr_log (put_string s fp) = vtr_log fp"
  unfolding put_string_def by (rule vtr_log_fold) simp

lemma vtr_log_put_bool [simp]: "vtr_log (put_bool v fp) = vtr_log fp"
  by (simp add: put_bool_def)

lemma vtr_log_put_endl [simp]: "vtr_log (put_endl fp) = vtr_log fp"
  by (simp add: put_endl_def)






lemma top_level_healthy:
  assumes "fs fname = Writable None"
  shows "write_fabric_bitstream_to_text_file fs bm fb cp fname verbose =
     Returned (fst (routed (opened fb fname None) bm fb cp))
       (finished fb fname verbose (snd (routed (opened fb fname None) bm fb cp)))"
  unfolding top_level_writable [of fs fname None, OF assms] by (simp add: split_def)

lemma top_level_defined:
  "write_fabric_bitstream_to_text_file fs bm fb cp fname verbose \<noteq> Undefined_Behaviour"
proof (cases "fs fname")
  case Unopenable
  then show ?thesis by (simp add: top_level_unopenable)
next
  case (Writable room)
  then show ?thesis
    by (simp add: top_level_writable [of fs fname room] split_def)
qed

lemma example_chain_max_size:
  "find_fabric_regional_bitstream_max_size example_chain_bitstream = 3"
  by (simp add: find_fabric_regional_bitstream_max_size_def example_chain_bitstream_def)

lemma example_chain_regions:
  "build_config_chain_fabric_bitstream_by_region example_bitstream_manager
     example_chain_bitstream = [[True, False, True], [False, True, False]]"
  by (simp add: build_config_chain_fabric_bitstream_by_region_def example_chain_max_size)
     (simp add: example_chain_bitstream_def example_bitstream_manager_def)

lemma emitted_swap_differs:
  assumes "v \<noteq> w"
  shows "emitted (p @ [bit_digit v, bit_digit w] @ s) fp \<noteq>
         emitted (p @ [bit_digit w, bit_digit v] @ s) fp"
proof
  assume "emitted (p @ [bit_digit v, bit_digit w] @ s) fp =
          emitted (p @ [bit_digit w, bit_digit v] @ s) fp"
  then have "fp_content (emitted (p @ [bit_digit v, bit_digit w] @ s) fp) =
             fp_content (emitted (p @ [bit_digit w, bit_digit v] @ s) fp)" by simp
  with assms show False by (auto simp: emitted_def bit_digit_def split: if_splits)
qed

lemma memory_bank_two_bits:
  assumes "healthy fp"
    and "bit_bl_address fb x = bit_bl_address fb y"
    and "bit_wl_address fb x = bit_wl_address fb y"
  shows "write_memory_bank_fabric_bitstream_to_text_file fp (fb\<lparr>bits := [x, y]\<rparr>) =
          (0, emitted ((bit_bl_address fb x @ '' '' @ bit_wl_address fb x @ '' '') @
                 [bit_digit (bit_din fb x), bit_digit (bit_din fb y)] @ [CHR 0x0A]) fp)"
proof -
  have "build_memory_bank_fabric_bitstream_by_address (fb\<lparr>bits := [x, y]\<rparr>) =
          [((bit_bl_address fb x, bit_wl_address fb x), [bit_din fb x, bit_din fb y])]"
    using assms(2,3) by (simp add: build_memory_bank_fabric_bitstream_by_address_def)
  then show ?thesis
    by (simp add: write_memory_bank_fabric_bitstream_to_text_file_def
          fold_memory_bank_healthy [OF assms(1)])
qed

lemma frame_based_two_bits:
  assumes "healthy fp" and "bit_address fb x = bit_address fb y"
  shows "write_frame_based_fabric_bitstream_to_text_file fp (fb\<lparr>bits := [x, y]\<rparr>) =
          (0, emitted ((bit_address fb x @ '' '') @
                 [bit_digit (bit_din fb x), bit_digit (bit_din fb y)] @ [CHR 0x0A]) fp)"
proof -
  have "build_frame_based_fabric_bitstream_by_address (fb\<lparr>bits := [x, y]\<rparr>) =
          [(bit_address fb x, [bit_din fb x, bit_din fb y])]"
    using assms(2) by (simp add: build_frame_based_fabric_bitstream_by_address_def)
  then show ?thesis
    by (simp add: write_frame_based_fabric_bitstream_to_text_file_def
          fold_frame_based_healthy [OF assms(1)])
qed


















section \<open>The claims\<close>

text \<open>
  C1. Scan-chain protocol: on a stream that accepts every write, the chain encoder
  returns status 0 and emits, for every depth index \<open>i\<close> from 0 to \<open>maxLen - 1\<close>, one
  line made of the digit at position \<open>i\<close> of every region in region order, with no
  separator, followed by a line terminator. The text holds exactly \<open>maxLen\<close> line
  terminators, every padded region has length \<open>maxLen\<close>, and \<open>maxLen\<close> is the length of
  the longest region (0 when there is no region), not the number of bits.
\<close>

theorem scan_chain_lines:
  assumes "fp_good fp" and "fp_room fp = None"
  shows "write_config_chain_fabric_bitstream_to_text_file fp bm fb =
           Some (0, fp\<lparr>fp_content := fp_content fp @
             concat (map (\<lambda>i. map (\<lambda>r. if r ! i then CHR ''1'' else CHR ''0'')
                                 (build_config_chain_fabric_bitstream_by_region bm fb)
                              @ [CHR 0x0A])
                       [0..<find_fabric_regional_bitstream_max_size fb])\<rparr>)
         \<and> length (filter (\<lambda>c. c = CHR 0x0A)
             (concat (map (\<lambda>i. map (\<lambda>r. if r ! i then CHR ''1'' else CHR ''0'')
                                 (build_config_chain_fabric_bitstream_by_region bm fb)
                              @ [CHR 0x0A])
                       [0..<find_fabric_regional_bitstream_max_size fb]))) =
           find_fabric_regional_bitstream_max_size fb
         \<and> (\<forall>r \<in> set (build_config_chain_fabric_bitstream_by_region bm fb).
               length r = find_fabric_regional_bitstream_max_size fb)
         \<and> find_fabric_regional_bitstream_max_size fb =
             Max (insert 0 ((\<lambda>region. length (region_bits fb region)) ` set (regions fb)))"
proof (intro conjI)
  have h: "healthy fp" using assms by (simp add: healthy_def)
  show "write_config_chain_fabric_bitstream_to_text_file fp bm fb =
           Some (0, fp\<lparr>fp_content := fp_content fp @
             concat (map (\<lambda>i. map (\<lambda>r. if r ! i then CHR ''1'' else CHR ''0'')
                                 (build_config_chain_fabric_bitstream_by_region bm fb)
                              @ [CHR 0x0A])
                       [0..<find_fabric_regional_bitstream_max_size fb])\<rparr>)"
    by (simp add: write_config_chain_healthy [OF h] emitted_def bit_digit_def)
next
  show "length (filter (\<lambda>c. c = CHR 0x0A)
             (concat (map (\<lambda>i. map (\<lambda>r. if r ! i then CHR ''1'' else CHR ''0'')
                                 (build_config_chain_fabric_bitstream_by_region bm fb)
                              @ [CHR 0x0A])
                       [0..<find_fabric_regional_bitstream_max_size fb]))) =
           find_fabric_regional_bitstream_max_size fb"
    by (simp only: count_line_terminators length_upt diff_zero)
next
  show "\<forall>r \<in> set (build_config_chain_fabric_bitstream_by_region bm fb).
               length r = find_fabric_regional_bitstream_max_size fb"
    by (simp add: regional_bitstream_length)
next
  show "find_fabric_regional_bitstream_max_size fb =
             Max (insert 0 ((\<lambda>region. length (region_bits fb region)) ` set (regions fb)))"
    unfolding find_fabric_regional_bitstream_max_size_def by (rule fold_max_eq_Max)
qed

text \<open>
  The example of the specification: the regions 1, 0, 1 and 0, 1 (padded to 0, 1, 0)
  give the three lines \<open>10\<close>, \<open>01\<close>, \<open>10\<close>.
\<close>

theorem scan_chain_lines_witness:
  "fp_good example_stream \<and> fp_room example_stream = None \<and>
   write_config_chain_fabric_bitstream_to_text_file example_stream example_bitstream_manager
     example_chain_bitstream =
     Some (0, \<lparr>fp_good = True, fp_room = None, fp_pending = 0,
                fp_content = ''10\<newline>01\<newline>10\<newline>'', vtr_log = []\<rparr>)"
  using scan_chain_lines [of example_stream example_bitstream_manager example_chain_bitstream]
  by (simp add: example_chain_max_size example_chain_regions example_stream_def
        upt_conv_Cons)

text \<open>
  C2. Memory-bank and frame-based protocols: on a stream that accepts every write,
  each group is written as one line: the BL address, one space, the WL address, one
  space (memory bank), or the address and one space (frame based), then the digits of
  the group's data vector with no separator, then a line terminator. This holds for the
  loop over any list of groups, hence for the two encoders, which return status 0.
\<close>

theorem address_line_format:
  assumes "fp_good fp" and "fp_room fp = None"
  shows "fold write_memory_bank_addr_din_pair groups fp =
           fp\<lparr>fp_content := fp_content fp @
             concat (map (\<lambda>((bl, wl), dins).
                       bl @ '' '' @ wl @ '' '' @
                       map (\<lambda>v. if v then CHR ''1'' else CHR ''0'') dins @ [CHR 0x0A]) groups)\<rparr>
         \<and> write_memory_bank_fabric_bitstream_to_text_file fp fb =
           (0, fp\<lparr>fp_content := fp_content fp @
             concat (map (\<lambda>((bl, wl), dins).
                       bl @ '' '' @ wl @ '' '' @
                       map (\<lambda>v. if v then CHR ''1'' else CHR ''0'') dins @ [CHR 0x0A])
                     (build_memory_bank_fabric_bitstream_by_address fb))\<rparr>)
         \<and> fold write_frame_based_addr_din_pair frames fp =
           fp\<lparr>fp_content := fp_content fp @
             concat (map (\<lambda>(addr, dins).
                       addr @ '' '' @
                       map (\<lambda>v. if v then CHR ''1'' else CHR ''0'') dins @ [CHR 0x0A]) frames)\<rparr>
         \<and> write_frame_based_fabric_bitstream_to_text_file fp fb =
           (0, fp\<lparr>fp_content := fp_content fp @
             concat (map (\<lambda>(addr, dins).
                       addr @ '' '' @
                       map (\<lambda>v. if v then CHR ''1'' else CHR ''0'') dins @ [CHR 0x0A])
                     (build_frame_based_fabric_bitstream_by_address fb))\<rparr>)"
proof -
  have h: "healthy fp" using assms by (simp add: healthy_def)
  show ?thesis
    by (simp add: write_memory_bank_fabric_bitstream_to_text_file_def
          write_frame_based_fabric_bitstream_to_text_file_def
          fold_memory_bank_healthy [OF h] fold_frame_based_healthy [OF h]
          emitted_def bit_digit_fun)
qed

text \<open>
  The examples of the specification: two bits at BL \<open>01\<close>, WL \<open>10\<close> with the values 1
  then 0 give the line \<open>01 10 10\<close>; one bit at the address \<open>101\<close> with the value 1 gives
  the line \<open>101 1\<close>.
\<close>

theorem address_line_format_witness:
  "fp_good example_stream \<and> fp_room example_stream = None \<and>
   write_memory_bank_fabric_bitstream_to_text_file example_stream
     (example_fabric_bitstream\<lparr>bits := [0, 1]\<rparr>) =
     (0, \<lparr>fp_good = True, fp_room = None, fp_pending = 0, fp_content = ''01 10 10\<newline>'', vtr_log = []\<rparr>) \<and>
   write_frame_based_fabric_bitstream_to_text_file example_stream
     (example_fabric_bitstream\<lparr>bits := [0]\<rparr>) =
     (0, \<lparr>fp_good = True, fp_room = None, fp_pending = 0, fp_content = ''101 1\<newline>'', vtr_log = []\<rparr>)"
proof -
  have mb: "build_memory_bank_fabric_bitstream_by_address
              (example_fabric_bitstream\<lparr>bits := [0, 1]\<rparr>) = [((''01'', ''10''), [True, False])]"
    by (simp add: build_memory_bank_fabric_bitstream_by_address_def example_fabric_bitstream_def)
  have fr: "build_frame_based_fabric_bitstream_by_address
              (example_fabric_bitstream\<lparr>bits := [0]\<rparr>) = [(''101'', [True])]"
    by (simp add: build_frame_based_fabric_bitstream_by_address_def example_fabric_bitstream_def)
  have g: "fp_good example_stream" and r: "fp_room example_stream = None"
    by (simp_all add: example_stream_def)
  from address_line_format
           [OF g r, of "[]" "example_fabric_bitstream\<lparr>bits := [0, 1]\<rparr>" "[]", unfolded mb]
    address_line_format
           [OF g r, of "[]" "example_fabric_bitstream\<lparr>bits := [0]\<rparr>" "[]", unfolded fr]
  show ?thesis
    by (simp add: example_stream_def)
qed

text \<open>
  C3. Standalone protocol: on a stream that accepts every write, the flatten encoder
  returns status 0 and appends to the destination the digit \<open>1\<close> or \<open>0\<close> of every
  bit's value, in the order of \<open>bits\<close>, and nothing else: no space, no line terminator,
  one unbroken digit string for the whole bit sequence.
\<close>

theorem standalone_digits:
  assumes "fp_good fp" and "fp_room fp = None" and "type cp = CONFIG_MEM_STANDALONE"
  shows "write_flatten_fabric_bitstream_to_text_file fp bm fb cp =
           (0, fp\<lparr>fp_content := fp_content fp @
                    map (\<lambda>b. if bit_value bm (config_bit fb b) then CHR ''1'' else CHR ''0'')
                      (bits fb)\<rparr>)"
proof -
  have h: "healthy fp" using assms by (simp add: healthy_def)
  from flatten_loop_standalone [OF h, of bm fb "bits fb"] assms(3) show ?thesis
    by (simp add: write_flatten_fabric_bitstream_to_text_file_def emitted_def bit_digit_def)
qed

text \<open>The example of the specification: the bits 1, 0, 1, 1 give \<open>1011\<close>.\<close>

theorem standalone_digits_witness:
  "fp_good example_stream \<and> fp_room example_stream = None \<and>
   type \<lparr>type = CONFIG_MEM_STANDALONE\<rparr> = CONFIG_MEM_STANDALONE \<and>
   write_flatten_fabric_bitstream_to_text_file example_stream example_bitstream_manager
     example_fabric_bitstream \<lparr>type = CONFIG_MEM_STANDALONE\<rparr> =
     (0, \<lparr>fp_good = True, fp_room = None, fp_pending = 0, fp_content = ''1011'', vtr_log = []\<rparr>)"
  using standalone_digits [of example_stream "\<lparr>type = CONFIG_MEM_STANDALONE\<rparr>"
      example_bitstream_manager example_fabric_bitstream]
  by (simp add: example_stream_def example_bitstream_manager_def example_fabric_bitstream_def)

text \<open>
  C4. Memory-bank and frame-based protocols: the keys of the groups, in the order the
  groups are iterated, are the distinct (BL, WL) pairs (or addresses) of the bits in
  the order of their first occurrence in \<open>bits\<close>. On a stream that accepts every write
  the encoders therefore write one line per distinct key, in first-seen order, the
  line of a key holding the data inputs of the bits with that key.
\<close>

theorem groups_in_first_seen_order:
  "map fst (build_memory_bank_fabric_bitstream_by_address fb) =
     first_seen (map (\<lambda>b. (bit_bl_address fb b, bit_wl_address fb b)) (bits fb))
   \<and> map fst (build_frame_based_fabric_bitstream_by_address fb) =
     first_seen (map (bit_address fb) (bits fb))
   \<and> (fp_good fp \<and> fp_room fp = None \<longrightarrow>
        write_memory_bank_fabric_bitstream_to_text_file fp fb =
          (0, fp\<lparr>fp_content := fp_content fp @
             concat (map (\<lambda>(bl, wl).
                       bl @ '' '' @ wl @ '' '' @
                       map (\<lambda>b. if bit_din fb b then CHR ''1'' else CHR ''0'')
                         (filter (\<lambda>b. bit_bl_address fb b = bl \<and> bit_wl_address fb b = wl)
                            (bits fb))
                       @ [CHR 0x0A])
                     (first_seen (map (\<lambda>b. (bit_bl_address fb b, bit_wl_address fb b))
                                    (bits fb))))\<rparr>)
        \<and> write_frame_based_fabric_bitstream_to_text_file fp fb =
          (0, fp\<lparr>fp_content := fp_content fp @
             concat (map (\<lambda>addr.
                       addr @ '' '' @
                       map (\<lambda>b. if bit_din fb b then CHR ''1'' else CHR ''0'')
                         (filter (\<lambda>b. bit_address fb b = addr) (bits fb))
                       @ [CHR 0x0A])
                     (first_seen (map (bit_address fb) (bits fb))))\<rparr>))"
proof (intro conjI impI)
  show "map fst (build_memory_bank_fabric_bitstream_by_address fb) =
     first_seen (map (\<lambda>b. (bit_bl_address fb b, bit_wl_address fb b)) (bits fb))"
    unfolding build_memory_bank_fabric_bitstream_by_address_def build_groups
    by (simp add: comp_def)
next
  show "map fst (build_frame_based_fabric_bitstream_by_address fb) =
     first_seen (map (bit_address fb) (bits fb))"
    unfolding build_frame_based_fabric_bitstream_by_address_def build_groups
    by (simp add: comp_def)
next
  assume "fp_good fp \<and> fp_room fp = None"
  then have h: "healthy fp" by (simp add: healthy_def)
  show "write_memory_bank_fabric_bitstream_to_text_file fp fb =
          (0, fp\<lparr>fp_content := fp_content fp @
             concat (map (\<lambda>(bl, wl).
                       bl @ '' '' @ wl @ '' '' @
                       map (\<lambda>b. if bit_din fb b then CHR ''1'' else CHR ''0'')
                         (filter (\<lambda>b. bit_bl_address fb b = bl \<and> bit_wl_address fb b = wl)
                            (bits fb))
                       @ [CHR 0x0A])
                     (first_seen (map (\<lambda>b. (bit_bl_address fb b, bit_wl_address fb b))
                                    (bits fb))))\<rparr>)"
    unfolding write_memory_bank_fabric_bitstream_to_text_file_def Let_def
      fold_memory_bank_healthy [OF h] build_memory_bank_fabric_bitstream_by_address_def
      build_groups
    by (simp add: emitted_def comp_def bit_digit_def split_def prod_eq_iff)
next
  assume "fp_good fp \<and> fp_room fp = None"
  then have h: "healthy fp" by (simp add: healthy_def)
  show "write_frame_based_fabric_bitstream_to_text_file fp fb =
          (0, fp\<lparr>fp_content := fp_content fp @
             concat (map (\<lambda>addr.
                       addr @ '' '' @
                       map (\<lambda>b. if bit_din fb b then CHR ''1'' else CHR ''0'')
                         (filter (\<lambda>b. bit_address fb b = addr) (bits fb))
                       @ [CHR 0x0A])
                     (first_seen (map (bit_address fb) (bits fb))))\<rparr>)"
    unfolding write_frame_based_fabric_bitstream_to_text_file_def Let_def
      fold_frame_based_healthy [OF h] build_frame_based_fabric_bitstream_by_address_def
      build_groups
    by (simp add: emitted_def comp_def bit_digit_def)
qed

text \<open>
  In the example the key of bit 2 sorts before the key of bits 0, 1 and 3 but is met
  after it: its line comes second.
\<close>

theorem groups_in_first_seen_order_witness:
  "fp_good example_stream \<and> fp_room example_stream = None \<and>
   map fst (build_memory_bank_fabric_bitstream_by_address example_fabric_bitstream) =
     [(''01'', ''10''), (''00'', ''11'')] \<and>
   map fst (build_frame_based_fabric_bitstream_by_address example_fabric_bitstream) =
     [''101'', ''011''] \<and>
   write_memory_bank_fabric_bitstream_to_text_file example_stream example_fabric_bitstream =
     (0, \<lparr>fp_good = True, fp_room = None, fp_pending = 0,
           fp_content = ''01 10 101\<newline>00 11 1\<newline>'', vtr_log = []\<rparr>) \<and>
   write_frame_based_fabric_bitstream_to_text_file example_stream example_fabric_bitstream =
     (0, \<lparr>fp_good = True, fp_room = None, fp_pending = 0,
           fp_content = ''101 101\<newline>011 1\<newline>'', vtr_log = []\<rparr>)"
  using groups_in_first_seen_order [of example_fabric_bitstream example_stream]
  by (simp add: example_stream_def example_fabric_bitstream_def)

text \<open>
  C5. For every protocol kind, the unrecognized ones included, a call whose
  destination opens and accepts every write returns, and the destination then holds
  what the encoder of the kind wrote (nothing for an unrecognized kind) followed by
  exactly one line terminator, the "trailing blank line" of the specification. The
  status is 1 for an unrecognized kind and 0 otherwise.
\<close>

theorem trailing_line_terminator:
  assumes "fs fname = Writable None"
  shows "\<exists>io. write_fabric_bitstream_to_text_file fs bm fb cp fname verbose =
                Returned (case type cp of CONFIG_MEM_UNRECOGNIZED v \<Rightarrow> 1 | _ \<Rightarrow> 0) io
              \<and> fp_content io =
                  (case type cp of
                     CONFIG_MEM_STANDALONE \<Rightarrow>
                       map (\<lambda>b. if bit_value bm (config_bit fb b) then CHR ''1'' else CHR ''0'')
                         (bits fb)
                   | CONFIG_MEM_SCAN_CHAIN \<Rightarrow>
                       concat (map (\<lambda>i. map (\<lambda>r. if r ! i then CHR ''1'' else CHR ''0'')
                                           (build_config_chain_fabric_bitstream_by_region bm fb)
                                        @ [CHR 0x0A])
                                 [0..<find_fabric_regional_bitstream_max_size fb])
                   | CONFIG_MEM_MEMORY_BANK \<Rightarrow>
                       concat (map (\<lambda>((bl, wl), dins).
                                 bl @ '' '' @ wl @ '' '' @
                                 map (\<lambda>v. if v then CHR ''1'' else CHR ''0'') dins @ [CHR 0x0A])
                               (build_memory_bank_fabric_bitstream_by_address fb))
                   | CONFIG_MEM_FRAME_BASED \<Rightarrow>
                       concat (map (\<lambda>(addr, dins).
                                 addr @ '' '' @
                                 map (\<lambda>v. if v then CHR ''1'' else CHR ''0'') dins @ [CHR 0x0A])
                               (build_frame_based_fabric_bitstream_by_address fb))
                   | CONFIG_MEM_UNRECOGNIZED v \<Rightarrow> [])
                  @ [CHR 0x0A]"
proof -
  let ?fp = "opened fb fname None"
  have h: "healthy ?fp" by simp
  have run: "write_fabric_bitstream_to_text_file fs bm fb cp fname verbose =
               Returned (fst (routed ?fp bm fb cp))
                 (finished fb fname verbose (snd (routed ?fp bm fb cp)))"
    using assms by (rule top_level_healthy)
  have hr: "healthy (snd (routed ?fp bm fb cp))"
    unfolding routed_healthy [OF h]
    by (cases "type cp") simp_all
  show ?thesis
    unfolding run
    by (rule exI [of _ "finished fb fname verbose (snd (routed ?fp bm fb cp))"])
       (cases "type cp";
        simp add: fp_content_finished_healthy [OF hr];
        simp add: routed_healthy [OF h] emitted_def vtr_log_event_def bit_digit_fun)
qed

text \<open>
  The example of the specification: the standalone bits 1, 0, 1, 1 give the content
  \<open>1011\<close> and the one trailing line terminator.
\<close>

theorem trailing_line_terminator_witness:
  "(\<lambda>fname. Writable None) ''fabric_bitstream.txt'' = Writable None \<and>
   (\<exists>io. write_fabric_bitstream_to_text_file (\<lambda>fname. Writable None)
            example_bitstream_manager example_fabric_bitstream
            \<lparr>type = CONFIG_MEM_STANDALONE\<rparr> ''fabric_bitstream.txt'' False = Returned 0 io
        \<and> fp_content io = ''1011\<newline>'')"
  using trailing_line_terminator [of "\<lambda>fname. Writable None" "''fabric_bitstream.txt''"
      example_bitstream_manager example_fabric_bitstream "\<lparr>type = CONFIG_MEM_STANDALONE\<rparr>" False]
  by (simp add: example_bitstream_manager_def example_fabric_bitstream_def)

text \<open>
  C6. With an unrecognized protocol kind the whole outcome is determined without any
  encoder: either the destination cannot be opened and the call aborts with nothing
  written, or the call returns status 1, the invalid-protocol error is logged, and
  the destination holds nothing but the trailing line terminator (not even that when
  the destination refuses its first character). Neither the bit values nor the
  addresses appear in the outcome.
\<close>

theorem unrecognized_kind_fails:
  assumes "type cp = CONFIG_MEM_UNRECOGNIZED v"
  shows "write_fabric_bitstream_to_text_file fs bm fb cp fname verbose =
           (case fs fname of
              Unopenable \<Rightarrow>
                Aborted \<lparr>fp_good = False, fp_room = None, fp_pending = 0, fp_content = [],
                  vtr_log = (if fname = [] then [Error_Empty_File_Name] else [])
                            @ [Timer_Start (length (bits fb)) fname, Error_Invalid_File fname]\<rparr>
            | Writable room \<Rightarrow>
                Returned 1 \<lparr>fp_good = (room \<noteq> Some 0),
                  fp_room = (case room of None \<Rightarrow> None | Some n \<Rightarrow> Some (n - 1)),
                  fp_pending = 0,
                  fp_content = (if room = Some 0 then [] else [CHR 0x0A]),
                  vtr_log = (if fname = [] then [Error_Empty_File_Name] else [])
                            @ [Timer_Start (length (bits fb)) fname, Error_Invalid_Protocol]
                            @ (if verbose then [Outputted_Bits (length (bits fb)) fname] else [])
                            @ [Timer_Finish]\<rparr>)"
proof (cases "fs fname")
  case Unopenable
  then show ?thesis by (simp add: top_level_unopenable num_bits_def)
next
  case (Writable room)
  show ?thesis
    unfolding top_level_writable [of fs fname room, OF Writable]
    using assms Writable
    by (cases room)
       (auto simp: routed_def finished_def opened_def vtr_log_event_def put_endl_def
          put_char_def flush_def device_write_def filebuf_put_area_def num_bits_def)
qed

theorem unrecognized_kind_fails_witness:
  "type \<lparr>type = CONFIG_MEM_UNRECOGNIZED 4\<rparr> = CONFIG_MEM_UNRECOGNIZED 4 \<and>
   write_fabric_bitstream_to_text_file (\<lambda>fname. Writable None) example_bitstream_manager
     example_fabric_bitstream \<lparr>type = CONFIG_MEM_UNRECOGNIZED 4\<rparr> ''fabric_bitstream.txt'' False =
     Returned 1 \<lparr>fp_good = True, fp_room = None, fp_pending = 0, fp_content = ''\<newline>'',
       vtr_log = [Timer_Start 4 ''fabric_bitstream.txt'', Error_Invalid_Protocol, Timer_Finish]\<rparr>"
  using unrecognized_kind_fails [of "\<lparr>type = CONFIG_MEM_UNRECOGNIZED 4\<rparr>" 4
      "\<lambda>fname. Writable None" example_bitstream_manager example_fabric_bitstream
      "''fabric_bitstream.txt''" False]
  by (simp add: example_fabric_bitstream_def)



text \<open>
  C8. The data vector of every address group holds the data inputs of the bits with
  the group's key in the order of these bits in \<open>bits\<close>; no value is reordered. Two
  bits \<open>b1\<close>, \<open>b2\<close> that share an address and come in this order give, on a stream that
  accepts every write, the one line with the digit of \<open>b1\<close> before the digit of \<open>b2\<close>;
  when their values differ, the two source orders give different outputs.
\<close>

theorem data_vector_in_source_order:
  "(\<forall>(addr, dins) \<in> set (build_memory_bank_fabric_bitstream_by_address fb).
      dins = map (bit_din fb)
               (filter (\<lambda>b. (bit_bl_address fb b, bit_wl_address fb b) = addr) (bits fb)))
   \<and> (\<forall>(addr, dins) \<in> set (build_frame_based_fabric_bitstream_by_address fb).
      dins = map (bit_din fb) (filter (\<lambda>b. bit_address fb b = addr) (bits fb)))
   \<and> (fp_good fp \<and> fp_room fp = None
        \<and> bit_bl_address fb b1 = bit_bl_address fb b2
        \<and> bit_wl_address fb b1 = bit_wl_address fb b2 \<longrightarrow>
        write_memory_bank_fabric_bitstream_to_text_file fp (fb\<lparr>bits := [b1, b2]\<rparr>) =
          (0, fp\<lparr>fp_content := fp_content fp @
                 bit_bl_address fb b1 @ '' '' @ bit_wl_address fb b1 @ '' '' @
                 [if bit_din fb b1 then CHR ''1'' else CHR ''0'',
                  if bit_din fb b2 then CHR ''1'' else CHR ''0''] @ [CHR 0x0A]\<rparr>)
        \<and> (bit_din fb b1 \<noteq> bit_din fb b2 \<longrightarrow>
             write_memory_bank_fabric_bitstream_to_text_file fp (fb\<lparr>bits := [b1, b2]\<rparr>) \<noteq>
             write_memory_bank_fabric_bitstream_to_text_file fp (fb\<lparr>bits := [b2, b1]\<rparr>)))
   \<and> (fp_good fp \<and> fp_room fp = None \<and> bit_address fb b1 = bit_address fb b2 \<longrightarrow>
        write_frame_based_fabric_bitstream_to_text_file fp (fb\<lparr>bits := [b1, b2]\<rparr>) =
          (0, fp\<lparr>fp_content := fp_content fp @
                 bit_address fb b1 @ '' '' @
                 [if bit_din fb b1 then CHR ''1'' else CHR ''0'',
                  if bit_din fb b2 then CHR ''1'' else CHR ''0''] @ [CHR 0x0A]\<rparr>)
        \<and> (bit_din fb b1 \<noteq> bit_din fb b2 \<longrightarrow>
             write_frame_based_fabric_bitstream_to_text_file fp (fb\<lparr>bits := [b1, b2]\<rparr>) \<noteq>
             write_frame_based_fabric_bitstream_to_text_file fp (fb\<lparr>bits := [b2, b1]\<rparr>)))"
proof -
  have groups_mb:
    "\<forall>(addr, dins) \<in> set (build_memory_bank_fabric_bitstream_by_address fb).
       dins = map (bit_din fb)
                (filter (\<lambda>b. (bit_bl_address fb b, bit_wl_address fb b) = addr) (bits fb))"
    unfolding build_memory_bank_fabric_bitstream_by_address_def
    by (auto dest: group_dins)
  have groups_fr:
    "\<forall>(addr, dins) \<in> set (build_frame_based_fabric_bitstream_by_address fb).
       dins = map (bit_din fb) (filter (\<lambda>b. bit_address fb b = addr) (bits fb))"
    unfolding build_frame_based_fabric_bitstream_by_address_def
    by (auto dest: group_dins)
  have two_mb:
    "write_memory_bank_fabric_bitstream_to_text_file fp (fb\<lparr>bits := [b1, b2]\<rparr>) =
       (0, fp\<lparr>fp_content := fp_content fp @
              bit_bl_address fb b1 @ '' '' @ bit_wl_address fb b1 @ '' '' @
              [if bit_din fb b1 then CHR ''1'' else CHR ''0'',
               if bit_din fb b2 then CHR ''1'' else CHR ''0''] @ [CHR 0x0A]\<rparr>)
     \<and> (bit_din fb b1 \<noteq> bit_din fb b2 \<longrightarrow>
          write_memory_bank_fabric_bitstream_to_text_file fp (fb\<lparr>bits := [b1, b2]\<rparr>) \<noteq>
          write_memory_bank_fabric_bitstream_to_text_file fp (fb\<lparr>bits := [b2, b1]\<rparr>))"
    if a: "fp_good fp \<and> fp_room fp = None
           \<and> bit_bl_address fb b1 = bit_bl_address fb b2
           \<and> bit_wl_address fb b1 = bit_wl_address fb b2"
  proof -
    from a have h: "healthy fp" by (simp add: healthy_def)
    from a have bl: "bit_bl_address fb b1 = bit_bl_address fb b2"
      and wl: "bit_wl_address fb b1 = bit_wl_address fb b2" by simp_all
    note 12 = memory_bank_two_bits [OF h bl wl]
    note 21 = memory_bank_two_bits [OF h bl [symmetric] wl [symmetric], folded bl wl]
    show ?thesis
    proof (intro conjI impI)
      show "write_memory_bank_fabric_bitstream_to_text_file fp (fb\<lparr>bits := [b1, b2]\<rparr>) =
         (0, fp\<lparr>fp_content := fp_content fp @
              bit_bl_address fb b1 @ '' '' @ bit_wl_address fb b1 @ '' '' @
              [if bit_din fb b1 then CHR ''1'' else CHR ''0'',
               if bit_din fb b2 then CHR ''1'' else CHR ''0''] @ [CHR 0x0A]\<rparr>)"
        unfolding 12 by (simp add: emitted_def bit_digit_def)
    next
      assume "bit_din fb b1 \<noteq> bit_din fb b2"
      then have "emitted ((bit_bl_address fb b1 @ '' '' @ bit_wl_address fb b1 @ '' '') @
                     [bit_digit (bit_din fb b1), bit_digit (bit_din fb b2)] @ [CHR 0x0A]) fp \<noteq>
                 emitted ((bit_bl_address fb b1 @ '' '' @ bit_wl_address fb b1 @ '' '') @
                     [bit_digit (bit_din fb b2), bit_digit (bit_din fb b1)] @ [CHR 0x0A]) fp"
        by (rule emitted_swap_differs)
      then show "write_memory_bank_fabric_bitstream_to_text_file fp (fb\<lparr>bits := [b1, b2]\<rparr>) \<noteq>
          write_memory_bank_fabric_bitstream_to_text_file fp (fb\<lparr>bits := [b2, b1]\<rparr>)"
        unfolding 12 21 by (simp only: prod.inject simp_thms)
    qed
  qed
  have two_fr:
    "write_frame_based_fabric_bitstream_to_text_file fp (fb\<lparr>bits := [b1, b2]\<rparr>) =
       (0, fp\<lparr>fp_content := fp_content fp @
              bit_address fb b1 @ '' '' @
              [if bit_din fb b1 then CHR ''1'' else CHR ''0'',
               if bit_din fb b2 then CHR ''1'' else CHR ''0''] @ [CHR 0x0A]\<rparr>)
     \<and> (bit_din fb b1 \<noteq> bit_din fb b2 \<longrightarrow>
          write_frame_based_fabric_bitstream_to_text_file fp (fb\<lparr>bits := [b1, b2]\<rparr>) \<noteq>
          write_frame_based_fabric_bitstream_to_text_file fp (fb\<lparr>bits := [b2, b1]\<rparr>))"
    if a: "fp_good fp \<and> fp_room fp = None \<and> bit_address fb b1 = bit_address fb b2"
  proof -
    from a have h: "healthy fp" by (simp add: healthy_def)
    from a have ad: "bit_address fb b1 = bit_address fb b2" by simp
    note 12 = frame_based_two_bits [OF h ad]
    note 21 = frame_based_two_bits [OF h ad [symmetric], folded ad]
    show ?thesis
    proof (intro conjI impI)
      show "write_frame_based_fabric_bitstream_to_text_file fp (fb\<lparr>bits := [b1, b2]\<rparr>) =
         (0, fp\<lparr>fp_content := fp_content fp @
              bit_address fb b1 @ '' '' @
              [if bit_din fb b1 then CHR ''1'' else CHR ''0'',
               if bit_din fb b2 then CHR ''1'' else CHR ''0''] @ [CHR 0x0A]\<rparr>)"
        unfolding 12 by (simp add: emitted_def bit_digit_def)
    next
      assume "bit_din fb b1 \<noteq> bit_din fb b2"
      then have "emitted ((bit_address fb b1 @ '' '') @
                     [bit_digit (bit_din fb b1), bit_digit (bit_din fb b2)] @ [CHR 0x0A]) fp \<noteq>
                 emitted ((bit_address fb b1 @ '' '') @
                     [bit_digit (bit_din fb b2), bit_digit (bit_din fb b1)] @ [CHR 0x0A]) fp"
        by (rule emitted_swap_differs)
      then show "write_frame_based_fabric_bitstream_to_text_file fp (fb\<lparr>bits := [b1, b2]\<rparr>) \<noteq>
          write_frame_based_fabric_bitstream_to_text_file fp (fb\<lparr>bits := [b2, b1]\<rparr>)"
        unfolding 12 21 by (simp only: prod.inject simp_thms)
    qed
  qed
  from groups_mb groups_fr two_mb two_fr show ?thesis by blast
qed

text \<open>
  Bits 0 and 1 of the example share their address and hold 1 and 0: in the order
  0, 1 the line ends in \<open>10\<close>, in the order 1, 0 it ends in \<open>01\<close>.
\<close>

theorem data_vector_in_source_order_witness:
  "fp_good example_stream \<and> fp_room example_stream = None \<and>
   bit_bl_address example_fabric_bitstream 0 = bit_bl_address example_fabric_bitstream 1 \<and>
   bit_wl_address example_fabric_bitstream 0 = bit_wl_address example_fabric_bitstream 1 \<and>
   bit_address example_fabric_bitstream 0 = bit_address example_fabric_bitstream 1 \<and>
   bit_din example_fabric_bitstream 0 \<noteq> bit_din example_fabric_bitstream 1 \<and>
   write_memory_bank_fabric_bitstream_to_text_file example_stream
     (example_fabric_bitstream\<lparr>bits := [0, 1]\<rparr>) =
     (0, \<lparr>fp_good = True, fp_room = None, fp_pending = 0, fp_content = ''01 10 10\<newline>'', vtr_log = []\<rparr>) \<and>
   write_memory_bank_fabric_bitstream_to_text_file example_stream
     (example_fabric_bitstream\<lparr>bits := [1, 0]\<rparr>) =
     (0, \<lparr>fp_good = True, fp_room = None, fp_pending = 0, fp_content = ''01 10 01\<newline>'', vtr_log = []\<rparr>) \<and>
   write_frame_based_fabric_bitstream_to_text_file example_stream
     (example_fabric_bitstream\<lparr>bits := [0, 1]\<rparr>) =
     (0, \<lparr>fp_good = True, fp_room = None, fp_pending = 0, fp_content = ''101 10\<newline>'', vtr_log = []\<rparr>) \<and>
   write_frame_based_fabric_bitstream_to_text_file example_stream
     (example_fabric_bitstream\<lparr>bits := [1, 0]\<rparr>) =
     (0, \<lparr>fp_good = True, fp_room = None, fp_pending = 0, fp_content = ''101 01\<newline>'', vtr_log = []\<rparr>) \<and>
   build_memory_bank_fabric_bitstream_by_address example_fabric_bitstream =
     [((''01'', ''10''), [True, False, True]), ((''00'', ''11''), [True])] \<and>
   build_frame_based_fabric_bitstream_by_address example_fabric_bitstream =
     [(''101'', [True, False, True]), (''011'', [True])]"
proof -
  have a: "fp_good example_stream \<and> fp_room example_stream = None \<and>
     bit_bl_address example_fabric_bitstream 0 = bit_bl_address example_fabric_bitstream 1 \<and>
     bit_wl_address example_fabric_bitstream 0 = bit_wl_address example_fabric_bitstream 1 \<and>
     bit_address example_fabric_bitstream 0 = bit_address example_fabric_bitstream 1 \<and>
     bit_din example_fabric_bitstream 0 \<noteq> bit_din example_fabric_bitstream 1"
    by (simp add: example_stream_def example_fabric_bitstream_def)
  have b: "build_memory_bank_fabric_bitstream_by_address example_fabric_bitstream =
             [((''01'', ''10''), [True, False, True]), ((''00'', ''11''), [True])] \<and>
           build_frame_based_fabric_bitstream_by_address example_fabric_bitstream =
             [(''101'', [True, False, True]), (''011'', [True])]"
    by (simp add: build_memory_bank_fabric_bitstream_by_address_def
          build_frame_based_fabric_bitstream_by_address_def example_fabric_bitstream_def)
  from a b
    data_vector_in_source_order [of example_fabric_bitstream example_stream 0 1]
    data_vector_in_source_order [of example_fabric_bitstream example_stream 1 0]
  show ?thesis
    by (simp add: example_stream_def example_fabric_bitstream_def)
qed

text \<open>
  C9. The outcome of the writer is a function of its arguments and of the behaviour
  of the destination alone: for a fixed bit source, protocol and verbosity, two calls
  on two destination names whose destinations behave alike both abort or both return,
  with the same status and with identical destination content. No call runs into
  undefined behaviour.
\<close>

theorem same_content_on_two_destinations:
  assumes "fs1 fname1 = fs2 fname2"
  shows "same_outcome (write_fabric_bitstream_to_text_file fs1 bm fb cp fname1 verbose)
           (write_fabric_bitstream_to_text_file fs2 bm fb cp fname2 verbose)
         \<and> write_fabric_bitstream_to_text_file fs1 bm fb cp fname1 verbose
             \<noteq> Undefined_Behaviour"
  using assms by (simp add: run_same_outcome top_level_defined)

theorem same_content_on_two_destinations_witness:
  "(\<lambda>fname. Writable None) ''a.txt'' = (\<lambda>fname. Writable None) ''b.txt'' \<and>
   write_fabric_bitstream_to_text_file (\<lambda>fname. Writable None) example_bitstream_manager
     example_chain_bitstream \<lparr>type = CONFIG_MEM_SCAN_CHAIN\<rparr> ''a.txt'' False =
     Returned 0 \<lparr>fp_good = True, fp_room = None, fp_pending = 0,
       fp_content = ''10\<newline>01\<newline>10\<newline>\<newline>'',
       vtr_log = [Timer_Start 5 ''a.txt'', Timer_Finish]\<rparr> \<and>
   same_outcome
     (write_fabric_bitstream_to_text_file (\<lambda>fname. Writable None) example_bitstream_manager
        example_chain_bitstream \<lparr>type = CONFIG_MEM_SCAN_CHAIN\<rparr> ''a.txt'' False)
     (write_fabric_bitstream_to_text_file (\<lambda>fname. Writable None) example_bitstream_manager
        example_chain_bitstream \<lparr>type = CONFIG_MEM_SCAN_CHAIN\<rparr> ''b.txt'' False)"
proof -
  have run: "write_fabric_bitstream_to_text_file (\<lambda>fname. Writable None)
               example_bitstream_manager example_chain_bitstream
               \<lparr>type = CONFIG_MEM_SCAN_CHAIN\<rparr> ''a.txt'' False =
             Returned 0 \<lparr>fp_good = True, fp_room = None, fp_pending = 0,
               fp_content = ''10\<newline>01\<newline>10\<newline>\<newline>'',
               vtr_log = [Timer_Start 5 ''a.txt'', Timer_Finish]\<rparr>"
    by (simp add: top_level_healthy routed_healthy example_chain_max_size
          example_chain_regions)
       (simp add: finished_def opened_def emitted_def put_endl_def put_char_def flush_def
          vtr_log_event_def bit_digit_def num_bits_def upt_conv_Cons
          example_chain_bitstream_def)
  from same_content_on_two_destinations [of "\<lambda>fname. Writable None" "''a.txt''"
      "\<lambda>fname. Writable None" "''b.txt''" example_bitstream_manager example_chain_bitstream
      "\<lparr>type = CONFIG_MEM_SCAN_CHAIN\<rparr>" False] run
  show ?thesis by simp
qed


end
